theory Spec2Isabelle
  imports Complex_Main
begin

section \<open>Feed-forward network engine (methods/ann/ffn\_impl.hpp)\<close>

text \<open>
  Conventions of the embedding.
  \<^item> \<open>size_t\<close> values are element counts and indices of buffers that exist in memory;
    they are modelled as \<open>nat\<close>. Sums and products of sizes of views inside one buffer
    are not taken to wrap. Where the source subtracts below zero, accumulates in \<open>int\<close>,
    or adds to an index that the caller chooses, the wrap is written out.
  \<^item> Numeric contents of the activation, delta and gradient buffers are computed by the
    layers, which the engine treats as opaque capabilities. The model keeps the shape and
    the address of every matrix object and records each call made on a layer, with the
    matrix objects passed to it, in the field \<open>trace\<close>.
  \<^item> Reading a \<open>std::vector\<close> out of range is undefined behaviour in the source; the
    model returns \<open>Inl IndexOutOfRange\<close> there.
\<close>

subsection \<open>Errors\<close>

datatype assertion =
    PastEndOfParameters     \<comment> \<open>SetLayerMemory, inside the loop\<close>
  | WeightSizeMismatch      \<comment> \<open>SetLayerMemory, after the loop\<close>
  | InputSizeMismatch       \<comment> \<open>Forward, input size against InputDimensions()\<close>
  | AliasOutsideBounds      \<comment> \<open>Initialize*PassMemory, "Creating alias outside bounds!"\<close>

datatype ffn_error =
    AssertFailed assertion
  | IndexOutOfRange
  | SubviewOutOfBounds

text \<open>
  Modelled from the spec: \<open>Log::Assert\<close> is declared in core/util/log.hpp, which is not
  among the sources. The spec calls a failed assertion a fatal internal-consistency check
  on which the process fails; the model stops with \<open>AssertFailed\<close>.
\<close>

definition Log_Assert :: "bool \<Rightarrow> assertion \<Rightarrow> ffn_error + unit" where
  "Log_Assert condition a = (if condition then Inr () else Inl (AssertFailed a))"

subsection \<open>Matrices, aliases and layers\<close>

text \<open>
  A dataset matrix or a column range of one: its shape, and the index of its first column
  in the matrix it was taken from.
\<close>

record mat =
  n_rows :: nat
  n_cols :: nat
  first_col :: nat

definition empty_mat :: mat where
  "empty_mat = \<lparr>n_rows = 0, n_cols = 0, first_col = 0\<rparr>"

text \<open>
  \<open>m.cols(a, b)\<close> of Armadillo: the columns \<open>a..b\<close>, refused when the range is not inside
  the matrix.
\<close>

definition cols :: "mat \<Rightarrow> nat \<Rightarrow> nat \<Rightarrow> ffn_error + mat" where
  "cols m a b =
     (if a \<le> b \<and> b < n_cols m
      then Inr \<lparr>n_rows = n_rows m, n_cols = b - a + 1, first_col = first_col m + a\<rparr>
      else Inl SubviewOutOfBounds)"

text \<open>An owned contiguous buffer: the identity of its allocation and its element count.\<close>

record arena =
  alloc :: nat
  n_elem :: nat

text \<open>
  A matrix object of \<open>layerOutputs\<close>, \<open>layerDeltas\<close> or \<open>layerGradients\<close>: either the
  default-constructed empty matrix or an alias made by \<open>MakeAlias\<close>.
\<close>

datatype Mat = EmptyMat | Alias (mem_alloc: nat) (mem_start: nat) (rows: nat) (columns: nat)

text \<open>
  \<open>MakeAlias(m, newMem, numRows, numCols)\<close> destroys \<open>m\<close> and rebuilds it in place over
  \<open>newMem\<close>; the pointer is the allocation and the offset into it.
\<close>

definition MakeAlias :: "Mat list \<Rightarrow> nat \<Rightarrow> nat \<times> nat \<Rightarrow> nat \<Rightarrow> nat \<Rightarrow> Mat list" where
  "MakeAlias ms i newMem numRows numCols =
     ms[i := Alias (fst newMem) (snd newMem) numRows numCols]"

text \<open>
  Modelled from the spec: the layer capability contract (layer.hpp is not among the
  sources). \<open>WeightSize()\<close>, \<open>Loss()\<close> and the flag behind \<open>Deterministic()\<close> are fields;
  \<open>OutputDimensions()\<close> and \<open>OutputSize()\<close> are computed by the layer from the input
  dimensions it was given; \<open>SetWeights(ptr)\<close> stores where the layer's weights start.
\<close>

record Layer =
  WeightSize :: nat
  InputDimensions :: "nat list"
  outputDimensionsOf :: "nat list \<Rightarrow> nat list"
  outputSizeOf :: "nat list \<Rightarrow> nat"
  Loss :: real
  Deterministic :: bool
  Weights :: "nat option"

definition OutputDimensions :: "Layer \<Rightarrow> nat list" where
  "OutputDimensions l = outputDimensionsOf l (InputDimensions l)"

definition OutputSize :: "Layer \<Rightarrow> nat" where
  "OutputSize l = outputSizeOf l (InputDimensions l)"

definition SetWeights :: "Layer \<Rightarrow> nat \<Rightarrow> Layer" where
  "SetWeights l weightsPtr = l\<lparr>Weights := Some weightsPtr\<rparr>"

text \<open>The elements of the parameter buffer that a layer's weight view covers.\<close>

definition WeightView :: "Layer \<Rightarrow> nat set" where
  "WeightView l = (case Weights l of None \<Rightarrow> {} | Some p \<Rightarrow> {p ..< p + WeightSize l})"

subsection \<open>The network object\<close>

text \<open>Names of the matrix objects that are handed to layers.\<close>

datatype matref =
    Inputs mat
  | Targets mat
  | Results
  | Error
  | LayerOutputs nat
  | LayerDeltas nat
  | LayerGradients nat

datatype call =
    SetSize matref nat
  | LayerForward nat matref matref
  | LayerBackward nat matref matref matref
  | LayerGradient nat matref matref matref
  | OutputLayerForward matref matref
  | OutputLayerBackward matref matref matref

text \<open>
  The output layer and the initialization rule are configuration objects of the
  template parameters. What the engine uses of them: the loss the output layer returns
  for a target batch, and the value the rule gives a weight.
\<close>

record OutputLayerType =
  lossOf :: "mat \<Rightarrow> real"

record InitializationRuleType =
  initialValue :: "nat \<Rightarrow> real"

record FFN =
  outputLayer :: OutputLayerType
  initializeRule :: InitializationRuleType
  reset :: bool
  network :: "Layer list"
  parameters :: "real list"
  inputDimensions :: "nat list"
  predictors :: mat
  responses :: mat
  numFunctions :: nat
  deterministic :: bool
  layerMemoryIsSet :: bool
  inputDimensionsAreSet :: bool
  totalInputSize :: nat
  totalOutputSize :: nat
  layerOutputMatrix :: arena
  layerOutputs :: "Mat list"
  deltaMatrix :: arena
  layerDeltas :: "Mat list"
  gradientMatrix :: arena
  layerGradients :: "Mat list"
  allocations :: nat
  trace :: "call list"

text \<open>
  \<open>allocations\<close> counts the buffers allocated so far, starting at 1; a new buffer takes the
  count as its identity, and \<open>no_arena\<close> (identity 0) is a matrix that owns no memory.
\<close>

definition no_arena :: arena where
  "no_arena = \<lparr>alloc = 0, n_elem = 0\<rparr>"

definition allocate :: "nat \<Rightarrow> FFN \<Rightarrow> arena \<times> FFN" where
  "allocate n s = (\<lparr>alloc = allocations s, n_elem = n\<rparr>, s\<lparr>allocations := Suc (allocations s)\<rparr>)"

subsection \<open>ResetDeterministic\<close>

text \<open>
  \<^verbatim>\<open>for (size_t i = 0; i < network.size(); ++i) network[i]->Deterministic() = true;\<close>
\<close>

definition ResetDeterministic :: "FFN \<Rightarrow> FFN" where
  "ResetDeterministic s = s\<lparr>network := map (\<lambda>l. l\<lparr>Deterministic := True\<rparr>) (network s)\<rparr>"

subsection \<open>SetLayerMemory\<close>

text \<open>
  The loop of \<open>SetLayerMemory\<close> over the layers from index \<open>i\<close> on, with the running
  \<open>totalWeightSize\<close>; it returns the layers with their weights set and the final total.
\<close>

function SetLayerMemory_loop ::
    "nat \<Rightarrow> Layer list \<Rightarrow> nat \<Rightarrow> nat \<Rightarrow> ffn_error + (Layer list \<times> nat)" where
  "SetLayerMemory_loop parameters_n_elem net i totalWeightSize =
     (if i < length net then
        (let weightSize = WeightSize (net ! i) in
         case Log_Assert (totalWeightSize + weightSize \<le> parameters_n_elem) PastEndOfParameters of
           Inl e \<Rightarrow> Inl e
         | Inr _ \<Rightarrow>
             SetLayerMemory_loop parameters_n_elem
               (net[i := SetWeights (net ! i) totalWeightSize]) (Suc i)
               (totalWeightSize + weightSize))
      else Inr (net, totalWeightSize))"
  by pat_completeness auto
termination
  by (relation "measure (\<lambda>(n, net, i, t). length net - i)") auto

definition SetLayerMemory :: "FFN \<Rightarrow> ffn_error + FFN" where
  "SetLayerMemory s =
     (case SetLayerMemory_loop (length (parameters s)) (network s) 0 0 of
        Inl e \<Rightarrow> Inl e
      | Inr (net, totalWeightSize) \<Rightarrow>
          (case Log_Assert (totalWeightSize = length (parameters s)) WeightSizeMismatch of
             Inl e \<Rightarrow> Inl e
           | Inr _ \<Rightarrow> Inr (s\<lparr>network := net, layerMemoryIsSet := True\<rparr>)))"

text \<open>The offset the layout gives layer \<open>i\<close>: the weight sizes of the layers before it.\<close>

definition weightOffset :: "Layer list \<Rightarrow> nat \<Rightarrow> nat" where
  "weightOffset net i = sum_list (map WeightSize (take i net))"

definition totalWeightSizeOf :: "Layer list \<Rightarrow> nat" where
  "totalWeightSizeOf net = sum_list (map WeightSize net)"


subsection \<open>Construction\<close>

text \<open>
  \<open>FFN(outputLayer, initializeRule)\<close>: \<open>reset(false)\<close>, \<open>numFunctions(0)\<close>,
  \<open>deterministic(false)\<close>; every other member is default-constructed.
\<close>

definition FFN_new :: "OutputLayerType \<Rightarrow> InitializationRuleType \<Rightarrow> FFN" where
  "FFN_new ol ir =
     \<lparr>outputLayer = ol, initializeRule = ir, reset = False, network = [], parameters = [],
      inputDimensions = [], predictors = empty_mat, responses = empty_mat, numFunctions = 0,
      deterministic = False, layerMemoryIsSet = False, inputDimensionsAreSet = False,
      totalInputSize = 0, totalOutputSize = 0,
      layerOutputMatrix = no_arena, layerOutputs = [],
      deltaMatrix = no_arena, layerDeltas = [],
      gradientMatrix = no_arena, layerGradients = [],
      allocations = 1, trace = []\<rparr>"

subsection \<open>InitializeWeights\<close>

text \<open>
  Modelled from the spec: \<open>NetworkInitialization::Initialize\<close> is not among the sources.
  The spec: if the buffer is empty, allocate \<open>TotalWeightSize()\<close> elements, and let the
  configured rule fill the buffer.
\<close>

definition NetworkInitialization_Initialize :: "FFN \<Rightarrow> FFN" where
  "NetworkInitialization_Initialize s =
     (let n = (if parameters s = [] then totalWeightSizeOf (network s)
               else length (parameters s))
      in s\<lparr>parameters := map (initialValue (initializeRule s)) [0 ..< n]\<rparr>)"

definition InitializeWeights :: "FFN \<Rightarrow> FFN" where
  "InitializeWeights s = NetworkInitialization_Initialize (ResetDeterministic s)"

subsection \<open>Forward-pass memory\<close>

text \<open>
  \<open>std::accumulate(first, last, init)\<close> with the default operation, which adds. The
  source passes the literal \<open>0\<close> as \<open>init\<close>, so the accumulator is an \<open>int\<close> (32 bits):
  each step adds in \<open>size_t\<close> and converts the sum back to \<open>int\<close>. The result is then
  stored in a \<open>size_t\<close>.
\<close>

definition to_int :: "int \<Rightarrow> int" where
  "to_int v = (v + 2 ^ 31) mod 2 ^ 32 - 2 ^ 31"

definition to_size_t :: "int \<Rightarrow> nat" where
  "to_size_t v = nat (v mod 2 ^ 64)"

definition accumulate :: "nat list \<Rightarrow> int \<Rightarrow> int" where
  "accumulate xs init =
     foldl (\<lambda>acc x. to_int (int ((to_size_t acc + x) mod 2 ^ 64))) init xs"

text \<open>
  The first loop of \<open>InitializeForwardPassMemory\<close>; it returns \<open>totalInputSize\<close> and
  \<open>totalOutputSize\<close>. The test \<open>i < network.size()\<close> inside the body is the source's.
\<close>

function ForwardPassSizes_loop :: "Layer list \<Rightarrow> nat \<Rightarrow> nat \<Rightarrow> nat \<Rightarrow> nat \<times> nat" where
  "ForwardPassSizes_loop net i totalIn totalOut =
     (if i < length net then
        (let layerOutputSize = OutputSize (net ! i);
             totalIn' = (if i < length net then totalIn + layerOutputSize else totalIn)
         in ForwardPassSizes_loop net (Suc i) totalIn' (totalOut + layerOutputSize))
      else (totalIn, totalOut))"
  by pat_completeness auto
termination
  by (relation "measure (\<lambda>(net, i, a, b). length net - i)") auto

text \<open>
  The hysteresis test. \<open>0.1 * n_elem\<close> and \<open>std::floor\<close> are computed in \<open>double\<close> in the
  source and over the reals here; the two agree for every element count below \<open>10^15\<close>,
  which is more than an arena can hold.
\<close>

definition needsReallocation :: "nat \<Rightarrow> nat \<Rightarrow> nat \<Rightarrow> bool" where
  "needsReallocation requested capacity shrinkReference =
     (requested > capacity \<or>
      real requested < of_int \<lfloor>0.1 * real shrinkReference\<rfloor>)"

text \<open>The second loop of \<open>InitializeForwardPassMemory\<close>: one alias per entry of \<open>layerOutputs\<close>.\<close>

function ForwardAlias_loop ::
    "Layer list \<Rightarrow> nat \<Rightarrow> nat \<Rightarrow> nat \<Rightarrow> Mat list \<Rightarrow> nat \<Rightarrow> nat \<Rightarrow> ffn_error + Mat list" where
  "ForwardAlias_loop net batchSize totalOut memptr outs i start =
     (if i < length outs then
        (if length net \<le> i then Inl IndexOutOfRange
         else
           (let layerOutputSize = OutputSize (net ! i) in
            case Log_Assert (start + layerOutputSize * batchSize \<le> batchSize * totalOut)
                   AliasOutsideBounds of
              Inl e \<Rightarrow> Inl e
            | Inr _ \<Rightarrow>
                ForwardAlias_loop net batchSize totalOut memptr
                  (MakeAlias outs i (memptr, start) layerOutputSize batchSize) (Suc i)
                  (start + batchSize * layerOutputSize)))
      else Inr outs)"
  by pat_completeness auto
termination
  by (relation "measure (\<lambda>(net, b, t, m, outs, i, st). length outs - i)")
     (auto simp: MakeAlias_def)

definition InitializeForwardPassMemory :: "nat \<Rightarrow> FFN \<Rightarrow> ffn_error + FFN" where
  "InitializeForwardPassMemory batchSize s =
     (let (totalIn, totalOut) =
            ForwardPassSizes_loop (network s) 0 (to_size_t (accumulate (inputDimensions s) 0)) 0;
          s1 = s\<lparr>totalInputSize := totalIn, totalOutputSize := totalOut\<rparr>;
          s2 = (if needsReallocation (batchSize * totalOut) (n_elem (layerOutputMatrix s1))
                     (n_elem (layerOutputMatrix s1))
                then (let (m, s') = allocate (batchSize * totalOut) s1
                      in s'\<lparr>layerOutputMatrix := m\<rparr>)
                else s1)
      in case ForwardAlias_loop (network s2) batchSize totalOut (alloc (layerOutputMatrix s2))
                (layerOutputs s2) 0 0 of
           Inl e \<Rightarrow> Inl e
         | Inr outs \<Rightarrow> Inr (s2\<lparr>layerOutputs := outs\<rparr>))"

subsection \<open>Backward-pass memory\<close>

function BackwardAlias_loop ::
    "Layer list \<Rightarrow> nat \<Rightarrow> nat \<Rightarrow> nat \<Rightarrow> nat \<Rightarrow> Mat list \<Rightarrow> nat \<Rightarrow> nat \<Rightarrow> ffn_error + Mat list" where
  "BackwardAlias_loop net inputSize batchSize totalIn memptr deltas i start =
     (if i < length deltas then
        (if i \<noteq> 0 \<and> length net \<le> i - 1 then Inl IndexOutOfRange
         else
           (let layerInputSize = (if i = 0 then inputSize else OutputSize (net ! (i - 1))) in
            case Log_Assert (start + layerInputSize * batchSize \<le> batchSize * totalIn)
                   AliasOutsideBounds of
              Inl e \<Rightarrow> Inl e
            | Inr _ \<Rightarrow>
                BackwardAlias_loop net inputSize batchSize totalIn memptr
                  (MakeAlias deltas i (memptr, start) layerInputSize batchSize) (Suc i)
                  (start + batchSize * layerInputSize)))
      else Inr deltas)"
  by pat_completeness auto
termination
  by (relation "measure (\<lambda>(net, n, b, t, m, ds, i, st). length ds - i)")
     (auto simp: MakeAlias_def)

text \<open>
  The shrink half of the test reads \<open>layerOutputMatrix.n_elem\<close>, as the source does.
\<close>

definition InitializeBackwardPassMemory :: "nat \<Rightarrow> FFN \<Rightarrow> ffn_error + FFN" where
  "InitializeBackwardPassMemory batchSize s =
     (let inputSize = to_size_t (accumulate (inputDimensions s) 0);
          s1 = (if needsReallocation (batchSize * totalInputSize s) (n_elem (deltaMatrix s))
                     (n_elem (layerOutputMatrix s))
                then (let (m, s') = allocate (batchSize * totalInputSize s) s
                      in s'\<lparr>deltaMatrix := m\<rparr>)
                else s)
      in case BackwardAlias_loop (network s1) inputSize batchSize (totalInputSize s1)
                (alloc (deltaMatrix s1)) (layerDeltas s1) 0 0 of
           Inl e \<Rightarrow> Inl e
         | Inr deltas \<Rightarrow> Inr (s1\<lparr>layerDeltas := deltas\<rparr>))"

subsection \<open>Gradient-pass memory\<close>

function GradientAlias_loop ::
    "Layer list \<Rightarrow> nat \<Rightarrow> Mat list \<Rightarrow> nat \<Rightarrow> nat \<Rightarrow> ffn_error + Mat list" where
  "GradientAlias_loop net memptr grads i start =
     (if i < length grads then
        (if length net \<le> i then Inl IndexOutOfRange
         else
           (let layerParamSize = WeightSize (net ! i) in
            GradientAlias_loop net memptr
              (MakeAlias grads i (memptr, start) layerParamSize 1) (Suc i)
              (start + layerParamSize)))
      else Inr grads)"
  by pat_completeness auto
termination
  by (relation "measure (\<lambda>(net, m, gs, i, st). length gs - i)") (auto simp: MakeAlias_def)

text \<open>\<open>gradient\<close> is the caller's buffer; its allocation is what the aliases point into.\<close>

definition InitializeGradientPassMemory :: "arena \<Rightarrow> FFN \<Rightarrow> ffn_error + FFN" where
  "InitializeGradientPassMemory gradient s =
     (case GradientAlias_loop (network s) (alloc gradient) (layerGradients s) 0 0 of
        Inl e \<Rightarrow> Inl e
      | Inr grads \<Rightarrow> Inr (s\<lparr>layerGradients := grads\<rparr>))"


subsection \<open>Sequencing of fallible steps\<close>

definition andThen :: "ffn_error + 'a \<Rightarrow> ('a \<Rightarrow> ffn_error + 'b) \<Rightarrow> ffn_error + 'b" where
  "andThen m f = (case m of Inl e \<Rightarrow> Inl e | Inr x \<Rightarrow> f x)"

definition record_call :: "call \<Rightarrow> FFN \<Rightarrow> FFN" where
  "record_call c s = s\<lparr>trace := trace s @ [c]\<rparr>"

text \<open>\<open>size_t\<close> subtraction below zero wraps; these are the places where the source can do it.\<close>

definition SIZE_MAX :: nat where
  "SIZE_MAX = 2 ^ 64 - 1"

definition size_minus_one :: "nat \<Rightarrow> nat" where
  "size_minus_one n = (if n = 0 then SIZE_MAX else n - 1)"

definition size_minus_two :: "nat \<Rightarrow> nat" where
  "size_minus_two n = (if n < 2 then SIZE_MAX - (1 - n) else n - 2)"

subsection \<open>Forward\<close>

text \<open>
  Passing the input dimensions through the network: the loop
  \<^verbatim>\<open>for (size_t i = 1; i < network.size(); ++i)\<close> of \<open>Forward\<close>. It returns the layers with
  their input dimensions set, \<open>totalInputSize\<close> and \<open>totalOutputSize\<close>.
\<close>

function InputDimensions_loop ::
    "Layer list \<Rightarrow> nat \<Rightarrow> nat \<Rightarrow> nat \<Rightarrow> Layer list \<times> nat \<times> nat" where
  "InputDimensions_loop net i totalIn totalOut =
     (if i < length net then
        (let net1 = net[i := (net ! i)\<lparr>InputDimensions := OutputDimensions (net ! (i - 1))\<rparr>];
             layerOutputSize = OutputSize (net1 ! i);
             totalIn' = (if i \<noteq> length net1 - 1 then totalIn + layerOutputSize else totalIn)
         in InputDimensions_loop net1 (Suc i) totalIn' (totalOut + layerOutputSize))
      else (net, totalIn, totalOut))"
  by pat_completeness auto
termination
  by (relation "measure (\<lambda>(net, i, a, b). length net - i)") auto

text \<open>
  The block of \<open>Forward\<close> under
  \<^verbatim>\<open>if (network.front()->InputDimensions() != inputDimensions || !inputDimensionsAreSet)\<close>,
  with its guard. The size check is the \<open>Log::Assert\<close> on \<open>totalInputSize == inputs.n_rows\<close>.
\<close>

definition Forward_inputDimensions :: "mat \<Rightarrow> FFN \<Rightarrow> ffn_error + FFN" where
  "Forward_inputDimensions inputs s =
     (if network s = [] then Inl IndexOutOfRange
      else if InputDimensions (hd (network s)) \<noteq> inputDimensions s \<or> \<not> inputDimensionsAreSet s
      then
        (let s1 = (if length (inputDimensions s) = 0
                   then s\<lparr>inputDimensions := [n_rows inputs]\<rparr> else s);
             totalIn = to_size_t (accumulate (inputDimensions s1) 0)
         in andThen (Log_Assert (totalIn = n_rows inputs) InputSizeMismatch) (\<lambda>_.
              let net1 = (network s1)[0 := (hd (network s1))\<lparr>InputDimensions := inputDimensions s1\<rparr>];
                  (net2, totalIn', totalOut) = InputDimensions_loop net1 1 totalIn 0
              in Inr (s1\<lparr>network := net2, totalInputSize := totalIn',
                        totalOutputSize := totalOut, inputDimensionsAreSet := True\<rparr>)))
      else Inr s)"

text \<open>The loop over the inner layers of the range, \<^verbatim>\<open>for (size_t i = 1; i < end - begin; ++i)\<close>.\<close>

function Forward_loop :: "nat \<Rightarrow> nat \<Rightarrow> nat \<Rightarrow> FFN \<Rightarrow> ffn_error + FFN" where
  "Forward_loop begin end i s =
     (if i < end - begin then
        (if length (network s) \<le> begin + i \<or> length (layerOutputs s) \<le> begin + i
         then Inl IndexOutOfRange
         else Forward_loop begin end (Suc i)
                (record_call (LayerForward (begin + i) (LayerOutputs (begin + i - 1))
                                (LayerOutputs (begin + i))) s))
      else Inr s)"
  by pat_completeness auto
termination
  by (relation "measure (\<lambda>(b, e, i, s). e - b - i)") auto

text \<open>
  The tail of \<open>Forward\<close>, from \<open>results.set_size\<close> on: the layers of the range run in
  order, the first on the input and the last into \<open>results\<close>. \<open>set_size\<close> and the
  layers' \<open>Forward\<close> calls are recorded in the trace; what they write is the layers'
  business.
\<close>

definition Forward_layers :: "mat \<Rightarrow> matref \<Rightarrow> nat \<Rightarrow> nat \<Rightarrow> FFN \<Rightarrow> ffn_error + FFN" where
  "Forward_layers inputs results begin end s4 =
     (if length (network s4) \<le> end then Inl IndexOutOfRange
      else
        (let s5 = record_call
                    (SetSize results (n_cols inputs * OutputSize (network s4 ! end))) s4
         in if end > begin then
              (if length (layerOutputs s5) \<le> begin then Inl IndexOutOfRange
               else
                 andThen (Forward_loop begin end 1
                            (record_call (LayerForward begin (Inputs inputs)
                                            (LayerOutputs begin)) s5)) (\<lambda>s6.
                   if length (layerOutputs s6) \<le> end - 1 then Inl IndexOutOfRange
                   else Inr (record_call
                               (LayerForward end (LayerOutputs (end - 1)) results) s6)))
            else Inr (record_call (LayerForward end (Inputs inputs) results) s5)))"

text \<open>
  \<open>Forward(inputs, results, begin, end)\<close>: nothing for an empty range; otherwise the
  weights are initialized if there are none, the layers' memory is set if it is not, the
  input dimensions are passed through the network if needed, the forward-pass memory is
  initialized for the batch, and the layers run.
\<close>

definition Forward :: "mat \<Rightarrow> matref \<Rightarrow> nat \<Rightarrow> nat \<Rightarrow> FFN \<Rightarrow> ffn_error + FFN" where
  "Forward inputs results begin end s =
     (if end < begin then Inr s
      else
        (let s1 = (if parameters s = [] then InitializeWeights s else s) in
         andThen (if \<not> layerMemoryIsSet s1 then SetLayerMemory s1 else Inr s1) (\<lambda>s2.
         andThen (Forward_inputDimensions inputs s2) (\<lambda>s3.
         andThen (InitializeForwardPassMemory (n_cols inputs) s3) (\<lambda>s4.
           Forward_layers inputs results begin end s4)))))"

text \<open>\<open>Forward(inputs, results)\<close> is \<open>Forward(inputs, results, 0, network.size() - 1)\<close>.\<close>

definition Forward_all :: "mat \<Rightarrow> matref \<Rightarrow> FFN \<Rightarrow> ffn_error + FFN" where
  "Forward_all inputs results s =
     Forward inputs results 0 (size_minus_one (length (network s))) s"

subsection \<open>Backward\<close>

definition Mat_n_cols :: "Mat \<Rightarrow> nat" where
  "Mat_n_cols m = (case m of EmptyMat \<Rightarrow> 0 | Alias a st r c \<Rightarrow> c)"

text \<open>\<^verbatim>\<open>for (size_t i = 2; i <= network.size(); ++i)\<close> of \<open>Backward()\<close>.\<close>

function Backward_loop :: "nat \<Rightarrow> FFN \<Rightarrow> ffn_error + FFN" where
  "Backward_loop i s =
     (let n = length (network s) in
      if i \<le> n then
        (if length (layerOutputs s) \<le> n - i \<or> length (layerDeltas s) \<le> n - i + 1
         then Inl IndexOutOfRange
         else Backward_loop (Suc i)
                (record_call (LayerBackward (n - i) (LayerOutputs (n - i))
                                (LayerDeltas (n - i + 1)) (LayerDeltas (n - i))) s))
      else Inr s)"
  by pat_completeness auto
termination
  by (relation "measure (\<lambda>(i, s). Suc (length (network s)) - i)")
     (auto simp: record_call_def)

definition Backward :: "FFN \<Rightarrow> ffn_error + FFN" where
  "Backward s =
     (if layerOutputs s = [] then Inl IndexOutOfRange
      else
        andThen (InitializeBackwardPassMemory (Mat_n_cols (last (layerOutputs s))) s) (\<lambda>s1.
          if network s1 = [] \<or> layerOutputs s1 = [] \<or> layerDeltas s1 = []
          then Inl IndexOutOfRange
          else Backward_loop 2
                 (record_call (LayerBackward (length (network s1) - 1)
                                 (LayerOutputs (length (layerOutputs s1) - 1)) Error
                                 (LayerDeltas (length (layerDeltas s1) - 1))) s1)))"

subsection \<open>Gradient\<close>

text \<open>\<^verbatim>\<open>for (size_t i = 1; i < network.size() - 1; ++i)\<close> of \<open>Gradient(input, gradient)\<close>.\<close>

function Gradient_loop :: "nat \<Rightarrow> FFN \<Rightarrow> ffn_error + FFN" where
  "Gradient_loop i s =
     (if i < size_minus_one (length (network s)) then
        (if length (network s) \<le> i \<or> length (layerOutputs s) \<le> i - 1 \<or>
            length (layerDeltas s) \<le> i + 1 \<or> length (layerGradients s) \<le> i
         then Inl IndexOutOfRange
         else Gradient_loop (Suc i)
                (record_call (LayerGradient i (LayerOutputs (i - 1)) (LayerDeltas (i + 1))
                                (LayerGradients i)) s))
      else Inr s)"
  by pat_completeness auto
termination
  by (relation "measure (\<lambda>(i, s). size_minus_one (length (network s)) - i)")
     (auto simp: record_call_def)

definition Gradient :: "mat \<Rightarrow> arena \<Rightarrow> FFN \<Rightarrow> ffn_error + FFN" where
  "Gradient input gradient s =
     andThen (InitializeGradientPassMemory gradient s) (\<lambda>s1.
       if network s1 = [] \<or> length (layerDeltas s1) \<le> 1 \<or> layerGradients s1 = []
       then Inl IndexOutOfRange
       else
         andThen (Gradient_loop 1
                    (record_call (LayerGradient 0 (Inputs input) (LayerDeltas 1)
                                    (LayerGradients 0)) s1)) (\<lambda>s2.
           if length (layerOutputs s2) \<le> size_minus_two (length (network s2))
           then Inl IndexOutOfRange
           else Inr (record_call
                       (LayerGradient (length (network s2) - 1)
                          (LayerOutputs (size_minus_two (length (network s2)))) Error
                          (LayerGradients (length (layerGradients s2) - 1))) s2)))"

subsection \<open>The objective functions\<close>

text \<open>
  \<open>Evaluate(parameters, begin, batchSize, deterministic)\<close>; the first argument is unnamed and
  unused in the source. The result is the loss and the network afterwards.
\<close>

definition batch :: "mat \<Rightarrow> nat \<Rightarrow> nat \<Rightarrow> ffn_error + mat" where
  "batch m begin batchSize = cols m begin (size_minus_one (begin + batchSize))"

definition Evaluate ::
    "real list \<Rightarrow> nat \<Rightarrow> nat \<Rightarrow> bool \<Rightarrow> FFN \<Rightarrow> ffn_error + (real \<times> FFN)" where
  "Evaluate params begin batchSize det s =
     (let s1 = (if parameters s = [] then InitializeWeights s else s);
          s2 = (if det \<noteq> deterministic s1
                then ResetDeterministic (s1\<lparr>deterministic := det\<rparr>) else s1)
      in andThen (batch (predictors s2) begin batchSize) (\<lambda>inputs.
         if layerOutputs s2 = [] then Inl IndexOutOfRange
         else
           andThen (Forward_all inputs (LayerOutputs (length (layerOutputs s2) - 1)) s2) (\<lambda>s3.
           andThen (batch (responses s3) begin batchSize) (\<lambda>targets.
             if layerOutputs s3 = [] then Inl IndexOutOfRange
             else
               (let s4 = record_call (OutputLayerForward
                            (LayerOutputs (length (layerOutputs s3) - 1)) (Targets targets)) s3;
                    res = lossOf (outputLayer s4) targets;
                    res' = foldl (+) res (map Loss (network s4))
                in Inr (res', s4))))))"

definition EvaluateWithGradient ::
    "real list \<Rightarrow> nat \<Rightarrow> arena \<Rightarrow> nat \<Rightarrow> FFN \<Rightarrow> ffn_error + (real \<times> FFN)" where
  "EvaluateWithGradient params begin gradient batchSize s =
     andThen (Evaluate params begin batchSize False s) (\<lambda>(res, s1).
       let res' = foldl (+) res (map Loss (network s1))
       in if layerOutputs s1 = [] then Inl IndexOutOfRange
          else
            andThen (batch (responses s1) begin batchSize) (\<lambda>targets.
              let s2 = record_call (OutputLayerBackward
                          (LayerOutputs (length (layerOutputs s1) - 1)) (Targets targets)
                          Error) s1
              in andThen (Backward s2) (\<lambda>s3.
                 andThen (batch (predictors s3) begin batchSize) (\<lambda>input.
                 andThen (Gradient input gradient s3) (\<lambda>s4. Inr (res', s4))))))"

subsection \<open>ResetData and Train\<close>

definition ResetData :: "mat \<Rightarrow> mat \<Rightarrow> FFN \<Rightarrow> FFN" where
  "ResetData predictors' responses' s =
     (let s1 = s\<lparr>numFunctions := n_cols responses', predictors := predictors',
                 responses := responses', deterministic := False\<rparr>;
          s2 = ResetDeterministic s1
      in if \<not> reset s2 then InitializeWeights s2 else s2)"

text \<open>
  \<open>Train(predictors, responses, optimizer, callbacks...)\<close> binds the data and hands the
  network to \<open>optimizer.Optimize\<close>, an external collaborator, which is a parameter here.
  The warning about the iteration budget and the timers only log.
\<close>

definition Train ::
    "mat \<Rightarrow> mat \<Rightarrow> (FFN \<Rightarrow> ffn_error + (real \<times> FFN)) \<Rightarrow> FFN \<Rightarrow> ffn_error + (real \<times> FFN)" where
  "Train predictors' responses' Optimize s = Optimize (ResetData predictors' responses' s)"

subsection \<open>serialize\<close>

text \<open>What \<open>serialize\<close> writes to and reads from the archive, in order.\<close>

record Archive =
  ar_outputLayer :: OutputLayerType
  ar_initializeRule :: InitializationRuleType
  ar_network :: "Layer list"
  ar_parameters :: "real list"
  ar_inputDimensions :: "nat list"
  ar_reset :: bool

definition serialize_save :: "FFN \<Rightarrow> Archive" where
  "serialize_save s =
     \<lparr>ar_outputLayer = outputLayer s, ar_initializeRule = initializeRule s,
      ar_network = network s, ar_parameters = parameters s,
      ar_inputDimensions = inputDimensions s, ar_reset = reset s\<rparr>"

definition serialize_load :: "Archive \<Rightarrow> FFN \<Rightarrow> FFN" where
  "serialize_load ar s =
     (let s1 = s\<lparr>outputLayer := ar_outputLayer ar, initializeRule := ar_initializeRule ar,
                 network := ar_network ar, parameters := ar_parameters ar,
                 inputDimensions := ar_inputDimensions ar, reset := ar_reset ar\<rparr>
      in s1\<lparr>predictors := empty_mat, responses := empty_mat, numFunctions := 0,
            layerOutputMatrix := no_arena,
            layerOutputs := replicate (length (network s1)) EmptyMat,
            deltaMatrix := no_arena,
            layerDeltas := replicate (length (network s1)) EmptyMat,
            gradientMatrix := no_arena,
            layerGradients := replicate (length (network s1)) EmptyMat,
            deterministic := True\<rparr>)"

section \<open>DatasetMapper (core/data/dataset\_mapper\_impl.hpp)\<close>

text \<open>
  \<open>Datatype\<close> and the member types are declared in headers that are not among the
  sources; the use of \<open>maps.at(dimension).second.at(value)[index]\<close>, \<open>maps.count\<close> and
  \<open>types.resize\<close> fixes them as a keyed map of pairs of maps and a vector. A mapped value
  is a floating-point number: either NaN or a number.
\<close>

datatype Datatype = numeric | categorical

datatype MappedType = NaN | Num real

datatype mapper_error = invalid_argument | out_of_range | length_error | out_of_bounds

record DatasetMapper =
  types :: "Datatype list"
  maps :: "nat \<rightharpoonup> ((string \<rightharpoonup> MappedType) \<times> (MappedType \<rightharpoonup> string list))"

definition isnan :: "MappedType \<Rightarrow> bool" where
  "isnan v = (v = NaN)"

text \<open>
  \<open>std::nexttoward(std::numeric_limits<T>::max(), T(0))\<close> for \<open>double\<close>: the largest finite
  value is \<open>(2^53 - 1) * 2^971\<close>, and the next one towards zero is one unit lower.
\<close>

definition nexttoward_max :: MappedType where
  "nexttoward_max = Num ((2 ^ 53 - 2) * 2 ^ 971)"

text \<open>\<open>m.at(k)\<close> of a standard map throws \<open>std::out_of_range\<close> when the key is absent.\<close>

definition map_at :: "('k \<rightharpoonup> 'v) \<Rightarrow> 'k \<Rightarrow> mapper_error + 'v" where
  "map_at m k = (case m k of None \<Rightarrow> Inl out_of_range | Some v \<Rightarrow> Inr v)"

definition UnmapString ::
    "MappedType \<Rightarrow> nat \<Rightarrow> nat \<Rightarrow> DatasetMapper \<Rightarrow> mapper_error + string" where
  "UnmapString value dimension unmappingIndex m =
     (let usedValue = (if isnan value then nexttoward_max else value) in
      case map_at (maps m) dimension of
        Inl e \<Rightarrow> Inl e
      | Inr p \<Rightarrow>
          (if snd p usedValue = None then Inl invalid_argument
           else
             (case map_at (snd p) usedValue of
                Inl e \<Rightarrow> Inl e
              | Inr strings \<Rightarrow>
                  if unmappingIndex \<ge> length strings then Inl invalid_argument
                  else Inr (strings ! unmappingIndex))))"

definition NumUnmappings :: "MappedType \<Rightarrow> nat \<Rightarrow> DatasetMapper \<Rightarrow> mapper_error + nat" where
  "NumUnmappings value dimension m =
     (if isnan value then
        (let newValue = nexttoward_max in
         case map_at (maps m) dimension of
           Inl e \<Rightarrow> Inl e
         | Inr p \<Rightarrow> (case map_at (snd p) newValue of Inl e \<Rightarrow> Inl e | Inr strings \<Rightarrow> Inr (length strings)))
      else
        (case map_at (maps m) dimension of
           Inl e \<Rightarrow> Inl e
         | Inr p \<Rightarrow> (case map_at (snd p) value of Inl e \<Rightarrow> Inl e | Inr strings \<Rightarrow> Inr (length strings))))"






section \<open>Closed forms and example networks\<close>

text \<open>
  A layer with \<open>w\<close> weights that produces \<open>out\<close> values per sample and reports the loss
  \<open>loss\<close>, and a network of such layers over a parameter buffer of \<open>n\<close> elements, its
  per-layer matrix lists sized to the layer list.
\<close>

definition exampleLayer :: "nat \<Rightarrow> nat \<Rightarrow> real \<Rightarrow> Layer" where
  "exampleLayer w out loss =
     \<lparr>WeightSize = w, InputDimensions = [], outputDimensionsOf = (\<lambda>d. [out]),
      outputSizeOf = (\<lambda>d. out), Loss = loss, Deterministic = False, Weights = None\<rparr>"

definition exampleFFN :: "Layer list \<Rightarrow> nat \<Rightarrow> FFN" where
  "exampleFFN net n =
     (FFN_new \<lparr>lossOf = (\<lambda>t. 0)\<rparr> \<lparr>initialValue = (\<lambda>i. 0)\<rparr>)
       \<lparr>network := net, parameters := replicate n 0,
        layerOutputs := replicate (length net) EmptyMat,
        layerDeltas := replicate (length net) EmptyMat,
        layerGradients := replicate (length net) EmptyMat\<rparr>"

text \<open>
  Closed forms used in the statements: the sum of the layers' output sizes, the offset of
  layer \<open>i\<close>'s output view at a batch size, and the call the gradient pass makes on an
  inner layer.
\<close>

definition outputTotal :: "Layer list \<Rightarrow> nat" where
  "outputTotal net = sum_list (map OutputSize net)"

definition outputOffset :: "Layer list \<Rightarrow> nat \<Rightarrow> nat \<Rightarrow> nat" where
  "outputOffset net batchSize i = batchSize * sum_list (map OutputSize (take i net))"

definition innerGradientCall :: "nat \<Rightarrow> call" where
  "innerGradientCall i =
     LayerGradient i (LayerOutputs (i - 1)) (LayerDeltas (i + 1)) (LayerGradients i)"

text \<open>
  Two layers of one output each behind a one-dimensional input, for the arena sizes.
\<close>

definition hysteresisExample :: FFN where
  "hysteresisExample =
     (exampleFFN [exampleLayer 1 1 0, exampleLayer 1 1 0] 2)\<lparr>inputDimensions := [1]\<rparr>"

text \<open>
  A single-column input of \<open>r\<close> rows; the two-layer network with the input shape declared
  as one dimension of 4, before and after a forward pass over a 4-row input; and the
  two-layer network bound to one sample, whose first layer reports a loss of 1.
\<close>

definition columnInput :: "nat \<Rightarrow> mat" where
  "columnInput r = \<lparr>n_rows = r, n_cols = 1, first_col = 0\<rparr>"

definition shapeExample :: FFN where
  "shapeExample =
     (exampleFFN [exampleLayer 1 1 0, exampleLayer 1 1 0] 2)\<lparr>inputDimensions := [4]\<rparr>"

definition shapeExampleAfter :: FFN where
  "shapeExampleAfter =
     shapeExample
       \<lparr>network := [(exampleLayer 1 1 0)\<lparr>InputDimensions := [4], Weights := Some 0\<rparr>,
                    (exampleLayer 1 1 0)\<lparr>InputDimensions := [1], Weights := Some 1\<rparr>],
        layerMemoryIsSet := True, inputDimensionsAreSet := True,
        totalInputSize := 6, totalOutputSize := 2,
        layerOutputMatrix := \<lparr>alloc = 1, n_elem = 2\<rparr>,
        layerOutputs := [Alias 1 0 1 1, Alias 1 1 1 1],
        allocations := 2,
        trace := [SetSize Results 1,
                  LayerForward 0 (Inputs (columnInput 4)) (LayerOutputs 0),
                  LayerForward 1 (LayerOutputs 0) Results]\<rparr>"

definition lossExample :: FFN where
  "lossExample =
     (exampleFFN [exampleLayer 1 1 1, exampleLayer 1 1 0] 2)
       \<lparr>predictors := columnInput 1, responses := columnInput 1\<rparr>"

section \<open>Verification of the network engine\<close>

declare SetLayerMemory_loop.simps [simp del]
declare ForwardPassSizes_loop.simps [simp del]
declare ForwardAlias_loop.simps [simp del]
declare BackwardAlias_loop.simps [simp del]
declare GradientAlias_loop.simps [simp del]
declare InputDimensions_loop.simps [simp del]
declare Forward_loop.simps [simp del]
declare Backward_loop.simps [simp del]
declare Gradient_loop.simps [simp del]

subsection \<open>Weight views\<close>

lemma Log_Assert_simps [simp]:
  "Log_Assert True a = Inr ()"
  "Log_Assert False a = Inl (AssertFailed a)"
  by (simp_all add: Log_Assert_def)

lemma WeightSize_SetWeights [simp]: "WeightSize (SetWeights l p) = WeightSize l"
  by (simp add: SetWeights_def)

lemma sum_drop_step:
  "i < length xs \<Longrightarrow>
     sum_list (map f (drop i xs)) = f (xs ! i) + sum_list (map f (drop (Suc i) xs))"
  by (simp add: Cons_nth_drop_Suc [symmetric])

text \<open>
  What the loop returns when no assertion fails: the layers before \<open>i\<close> untouched, every
  layer from \<open>i\<close> on given the running total at its turn, and the total of all of them.
\<close>

lemma SetLayerMemory_loop_Inr:
  "SetLayerMemory_loop n net i t = Inr (net', t') \<Longrightarrow>
     length net' = length net \<and>
     t' = t + sum_list (map WeightSize (drop i net)) \<and>
     (i < length net \<longrightarrow> t' \<le> n) \<and>
     (\<forall>k<length net. net' ! k =
        (if k < i then net ! k
         else SetWeights (net ! k) (t + sum_list (map WeightSize (take (k - i) (drop i net))))))"
proof (induction n net i t arbitrary: net' t' rule: SetLayerMemory_loop.induct)
  case (1 n net i t)
  note unfold = SetLayerMemory_loop.simps [of n net i t]
  show ?case
  proof (cases "i < length net")
    case False
    with "1.prems" show ?thesis by (simp add: unfold)
  next
    case True
    let ?w = "WeightSize (net ! i)"
    let ?net2 = "net[i := SetWeights (net ! i) t]"
    from True "1.prems" have ok: "t + ?w \<le> n"
      by (cases "t + ?w \<le> n") (simp_all add: unfold Let_def)
    with True "1.prems" have rec: "SetLayerMemory_loop n ?net2 (Suc i) (t + ?w) = Inr (net', t')"
      by (simp add: unfold Let_def)
    have ih: "length net' = length ?net2 \<and>
      t' = t + ?w + sum_list (map WeightSize (drop (Suc i) ?net2)) \<and>
      (Suc i < length ?net2 \<longrightarrow> t' \<le> n) \<and>
      (\<forall>k<length ?net2. net' ! k =
        (if k < Suc i then ?net2 ! k
         else SetWeights (?net2 ! k)
                (t + ?w + sum_list (map WeightSize (take (k - Suc i) (drop (Suc i) ?net2))))))"
      using "1.IH" [OF True refl _ rec] ok by auto
    have len: "length net' = length net" using ih by simp
    have tot: "t' = t + sum_list (map WeightSize (drop i net))"
      using ih True by (simp add: sum_drop_step [OF True])
    have bound: "t' \<le> n"
    proof (cases "Suc i < length net")
      case True then show ?thesis using ih by simp
    next
      case False
      then have "drop (Suc i) net = []" by simp
      then show ?thesis using ih ok by simp
    qed
    have elems: "\<forall>k<length net. net' ! k =
        (if k < i then net ! k
         else SetWeights (net ! k) (t + sum_list (map WeightSize (take (k - i) (drop i net)))))"
    proof (intro allI impI)
      fix k assume k: "k < length net"
      from ih k have e: "net' ! k =
        (if k < Suc i then ?net2 ! k
         else SetWeights (?net2 ! k)
                (t + ?w + sum_list (map WeightSize (take (k - Suc i) (drop (Suc i) net)))))"
        by simp
      show "net' ! k =
        (if k < i then net ! k
         else SetWeights (net ! k) (t + sum_list (map WeightSize (take (k - i) (drop i net)))))"
      proof (cases "k < i")
        case True then show ?thesis using e by simp
      next
        case False
        show ?thesis
        proof (cases "k = i")
          case True then show ?thesis using e k by simp
        next
          case ne: False
          with False have gt: "i < k" by simp
          then obtain m where m: "k - i = Suc m" "k - Suc i = m" by (cases "k - i") auto
          have "drop i net = net ! i # drop (Suc i) net"
            using True by (simp add: Cons_nth_drop_Suc)
          then have "sum_list (map WeightSize (take (k - i) (drop i net)))
               = ?w + sum_list (map WeightSize (take (k - Suc i) (drop (Suc i) net)))"
            using m by simp
          then show ?thesis using e gt ne by (simp add: add.assoc)
        qed
      qed
    qed
    from len tot bound elems show ?thesis by simp
  qed
qed

text \<open>The loop fails only by running past the end of the parameters.\<close>

lemma SetLayerMemory_loop_Inl:
  "SetLayerMemory_loop n net i t = Inl e \<Longrightarrow>
     e = AssertFailed PastEndOfParameters \<and> n < t + sum_list (map WeightSize (drop i net))"
proof (induction n net i t rule: SetLayerMemory_loop.induct)
  case (1 n net i t)
  note unfold = SetLayerMemory_loop.simps [of n net i t]
  show ?case
  proof (cases "i < length net")
    case False
    with "1.prems" show ?thesis by (simp add: unfold)
  next
    case True
    let ?w = "WeightSize (net ! i)"
    let ?net2 = "net[i := SetWeights (net ! i) t]"
    show ?thesis
    proof (cases "t + ?w \<le> n")
      case False
      with True "1.prems" show ?thesis
        by (simp add: unfold Let_def sum_drop_step [OF True])
    next
      case ok: True
      with True "1.prems" have rec: "SetLayerMemory_loop n ?net2 (Suc i) (t + ?w) = Inl e"
        by (simp add: unfold Let_def)
      have "e = AssertFailed PastEndOfParameters \<and>
            n < t + ?w + sum_list (map WeightSize (drop (Suc i) ?net2))"
        using "1.IH" [OF True refl _ rec] ok by simp
      then show ?thesis by (simp add: sum_drop_step [OF True])
    qed
  qed
qed

lemma weightOffset_Suc:
  "i < length net \<Longrightarrow> weightOffset net (Suc i) = weightOffset net i + WeightSize (net ! i)"
  by (simp add: weightOffset_def take_Suc_conv_app_nth)

lemma weightOffset_mono: "i \<le> j \<Longrightarrow> weightOffset net i \<le> weightOffset net j"
proof -
  assume "i \<le> j"
  then obtain d where j: "j = i + d" using le_Suc_ex by blast
  have "take (i + d) net = take i net @ take d (drop i net)" by (simp add: take_add)
  then show ?thesis by (simp add: weightOffset_def j)
qed

lemma weightOffset_length: "weightOffset net (length net) = totalWeightSizeOf net"
  by (simp add: weightOffset_def totalWeightSizeOf_def)

lemma weightOffset_next_le:
  assumes "i < j" "j < length net"
  shows "weightOffset net i + WeightSize (net ! i) \<le> weightOffset net j"
proof -
  from assms have "i < length net" by simp
  then have "weightOffset net i + WeightSize (net ! i) = weightOffset net (Suc i)"
    by (simp add: weightOffset_Suc)
  also have "\<dots> \<le> weightOffset net j" using assms by (intro weightOffset_mono) simp
  finally show ?thesis .
qed

lemma WeightView_SetWeights: "WeightView (SetWeights l p) = {p ..< p + WeightSize l}"
  by (simp add: WeightView_def SetWeights_def)

lemma views_cover_prefix:
  "m \<le> length net \<Longrightarrow>
     (\<Union>i<m. {weightOffset net i ..< weightOffset net i + WeightSize (net ! i)})
       = {0 ..< weightOffset net m}"
proof (induction m)
  case 0
  then show ?case by (simp add: weightOffset_def)
next
  case (Suc m)
  then have m: "m < length net" by simp
  have "(\<Union>i<Suc m. {weightOffset net i ..< weightOffset net i + WeightSize (net ! i)})
        = {0 ..< weightOffset net m} \<union> {weightOffset net m ..< weightOffset net (Suc m)}"
    using Suc by (simp add: lessThan_Suc weightOffset_Suc [OF m] Un_commute)
  also have "\<dots> = {0 ..< weightOffset net (Suc m)}"
    using weightOffset_mono [of m "Suc m" net] by (simp add: ivl_disj_un)
  finally show ?case .
qed

lemma SetLayerMemory_Inr:
  assumes "SetLayerMemory s = Inr s'"
  shows "totalWeightSizeOf (network s) = length (parameters s)"
    and "s' = s\<lparr>network := network s', layerMemoryIsSet := True\<rparr>"
    and "length (network s') = length (network s)"
    and "\<forall>i<length (network s).
           network s' ! i = SetWeights (network s ! i) (weightOffset (network s) i)"
proof -
  obtain net t
    where loop: "SetLayerMemory_loop (length (parameters s)) (network s) 0 0 = Inr (net, t)"
    using assms by (auto simp: SetLayerMemory_def split: sum.splits)
  with assms have t: "t = length (parameters s)"
    and s': "s' = s\<lparr>network := net, layerMemoryIsSet := True\<rparr>"
    by (auto simp: SetLayerMemory_def Log_Assert_def split: if_splits)
  note L = SetLayerMemory_loop_Inr [OF loop]
  from L t show "totalWeightSizeOf (network s) = length (parameters s)"
    by (simp add: totalWeightSizeOf_def)
  from s' show "s' = s\<lparr>network := network s', layerMemoryIsSet := True\<rparr>" by simp
  from L s' show "length (network s') = length (network s)" by simp
  from L s' show "\<forall>i<length (network s).
           network s' ! i = SetWeights (network s ! i) (weightOffset (network s) i)"
    by (simp add: weightOffset_def)
qed

lemma SetLayerMemory_Inl:
  assumes "SetLayerMemory s = Inl e"
  shows "totalWeightSizeOf (network s) \<noteq> length (parameters s)"
proof (cases "SetLayerMemory_loop (length (parameters s)) (network s) 0 0")
  case (Inl e')
  from SetLayerMemory_loop_Inl [OF Inl] show ?thesis
    by (simp add: totalWeightSizeOf_def)
next
  case (Inr r)
  obtain net t where r: "r = (net, t)" by (cases r)
  from SetLayerMemory_loop_Inr [OF Inr [unfolded r]]
  have "t = totalWeightSizeOf (network s)" by (simp add: totalWeightSizeOf_def)
  with assms Inr r show ?thesis
    by (auto simp: SetLayerMemory_def Log_Assert_def split: if_splits)
qed

text \<open>
  C1 (as stated, refuted). The claim has the offsets strictly increasing for every layer
  sequence. A layer without weights shares its offset with the next layer: with weight
  sizes 0 and 3 over a buffer of 3 elements, the pass succeeds and both layers start at 0.
\<close>

theorem SetLayerMemory_offsets_not_strict:
  "parameters (exampleFFN [exampleLayer 0 1 0, exampleLayer 3 1 0] 3) \<noteq> [] \<and>
   SetLayerMemory (exampleFFN [exampleLayer 0 1 0, exampleLayer 3 1 0] 3) =
     Inr ((exampleFFN [exampleLayer 0 1 0, exampleLayer 3 1 0] 3)
       \<lparr>network := [SetWeights (exampleLayer 0 1 0) 0, SetWeights (exampleLayer 3 1 0) 0],
        layerMemoryIsSet := True\<rparr>) \<and>
   \<not> (weightOffset (network (exampleFFN [exampleLayer 0 1 0, exampleLayer 3 1 0] 3)) 0
        < weightOffset (network (exampleFFN [exampleLayer 0 1 0, exampleLayer 3 1 0] 3)) 1)"
  by (simp add: SetLayerMemory_def SetLayerMemory_loop.simps exampleFFN_def FFN_new_def
      exampleLayer_def SetWeights_def weightOffset_def)

text \<open>
  C1 (amended). \<open>SetLayerMemory\<close> fails an assertion exactly when the parameter buffer's
  element count differs from the sum of the layers' weight sizes. Otherwise it changes
  nothing but the layers' weight pointers and \<open>layerMemoryIsSet\<close>; layer \<open>i\<close> receives
  the view of exactly its \<open>WeightSize()\<close> elements starting at the sum of the weight sizes
  of the layers before it; the offsets never decrease, and increase strictly after a layer
  that has weights; the views of different layers are disjoint, and together they are the
  whole buffer.
\<close>

theorem SetLayerMemory_layout:
  "(case SetLayerMemory s of
      Inl e \<Rightarrow> totalWeightSizeOf (network s) \<noteq> length (parameters s)
    | Inr s' \<Rightarrow>
        totalWeightSizeOf (network s) = length (parameters s) \<and>
        s' = s\<lparr>network := network s', layerMemoryIsSet := True\<rparr> \<and>
        length (network s') = length (network s) \<and>
        (\<forall>i<length (network s).
           network s' ! i = SetWeights (network s ! i) (weightOffset (network s) i) \<and>
           WeightView (network s' ! i) =
             {weightOffset (network s) i ..<
              weightOffset (network s) i + WeightSize (network s ! i)}) \<and>
        (\<forall>i j. i \<le> j \<longrightarrow> weightOffset (network s) i \<le> weightOffset (network s) j) \<and>
        (\<forall>i j. i < j \<and> j < length (network s) \<and> 0 < WeightSize (network s ! i) \<longrightarrow>
           weightOffset (network s) i < weightOffset (network s) j) \<and>
        (\<forall>i j. i < length (network s) \<and> j < length (network s) \<and> i \<noteq> j \<longrightarrow>
           WeightView (network s' ! i) \<inter> WeightView (network s' ! j) = {}) \<and>
        (\<Union>i<length (network s). WeightView (network s' ! i)) = {0 ..< length (parameters s)})"
proof (cases "SetLayerMemory s")
  case (Inl e)
  then show ?thesis using SetLayerMemory_Inl [OF Inl] by simp
next
  case (Inr s')
  note R = SetLayerMemory_Inr [OF Inr]
  let ?net = "network s"
  have view: "WeightView (network s' ! i) =
      {weightOffset ?net i ..< weightOffset ?net i + WeightSize (?net ! i)}"
    if "i < length ?net" for i
    using R(4) that by (simp add: WeightView_SetWeights)
  have strict: "weightOffset ?net i < weightOffset ?net j"
    if "i < j" "j < length ?net" "0 < WeightSize (?net ! i)" for i j
    using weightOffset_next_le [OF that(1,2)] that(3) by simp
  have disj: "WeightView (network s' ! i) \<inter> WeightView (network s' ! j) = {}"
    if "i < j" "j < length ?net" for i j
  proof -
    from that have i: "i < length ?net" by simp
    show ?thesis
      using weightOffset_next_le [OF that] by (auto simp: view [OF i] view [OF that(2)])
  qed
  have disj': "WeightView (network s' ! i) \<inter> WeightView (network s' ! j) = {}"
    if "i < length ?net" "j < length ?net" "i \<noteq> j" for i j
  proof (cases "i < j")
    case True then show ?thesis using disj that by simp
  next
    case False
    with that have "j < i" by simp
    then have "WeightView (network s' ! j) \<inter> WeightView (network s' ! i) = {}"
      using disj that by simp
    then show ?thesis by (simp add: Int_commute)
  qed
  have cover: "(\<Union>i<length ?net. WeightView (network s' ! i)) = {0 ..< length (parameters s)}"
  proof -
    have "(\<Union>i<length ?net. WeightView (network s' ! i))
        = (\<Union>i<length ?net. {weightOffset ?net i ..< weightOffset ?net i + WeightSize (?net ! i)})"
      using view by simp
    also have "\<dots> = {0 ..< weightOffset ?net (length ?net)}"
      by (rule views_cover_prefix) simp
    finally show ?thesis using R(1) by (simp add: weightOffset_length)
  qed
  have c4: "\<forall>i<length ?net.
           network s' ! i = SetWeights (?net ! i) (weightOffset ?net i) \<and>
           WeightView (network s' ! i) =
             {weightOffset ?net i ..< weightOffset ?net i + WeightSize (?net ! i)}"
    using R(4) view by blast
  have c5: "\<forall>i j. i \<le> j \<longrightarrow> weightOffset ?net i \<le> weightOffset ?net j"
    using weightOffset_mono by blast
  have c6: "\<forall>i j. i < j \<and> j < length ?net \<and> 0 < WeightSize (?net ! i) \<longrightarrow>
           weightOffset ?net i < weightOffset ?net j"
    using strict by blast
  have c7: "\<forall>i j. i < length ?net \<and> j < length ?net \<and> i \<noteq> j \<longrightarrow>
           WeightView (network s' ! i) \<inter> WeightView (network s' ! j) = {}"
    using disj' by blast
  show ?thesis
    unfolding Inr sum.case
    by (intro conjI)
       (rule R(1), rule R(2), rule R(3), rule c4, rule c5, rule c6, rule c7, rule cover)
qed

theorem SetLayerMemory_layout_witness:
  "SetLayerMemory (exampleFFN [exampleLayer 2 1 0, exampleLayer 3 1 0] 5) =
     Inr ((exampleFFN [exampleLayer 2 1 0, exampleLayer 3 1 0] 5)
       \<lparr>network := [SetWeights (exampleLayer 2 1 0) 0, SetWeights (exampleLayer 3 1 0) 2],
        layerMemoryIsSet := True\<rparr>) \<and>
   WeightView (SetWeights (exampleLayer 2 1 0) 0) = {0 ..< 2} \<and>
   WeightView (SetWeights (exampleLayer 3 1 0) 2) = {2 ..< 5} \<and>
   WeightView (SetWeights (exampleLayer 2 1 0) 0) \<inter>
     WeightView (SetWeights (exampleLayer 3 1 0) 2) = {}"
proof -
  let ?s = "exampleFFN [exampleLayer 2 1 0, exampleLayer 3 1 0] 5"
  let ?s' = "?s\<lparr>network := [SetWeights (exampleLayer 2 1 0) 0, SetWeights (exampleLayer 3 1 0) 2],
        layerMemoryIsSet := True\<rparr>"
  have run: "SetLayerMemory ?s = Inr ?s'"
    by (simp add: SetLayerMemory_def SetLayerMemory_loop.simps exampleFFN_def FFN_new_def
        exampleLayer_def SetWeights_def)
  note all = SetLayerMemory_layout [of ?s, unfolded run sum.case]
  note L = all [THEN conjunct2, THEN conjunct2, THEN conjunct2, THEN conjunct1]
  note D = all [THEN conjunct2, THEN conjunct2, THEN conjunct2, THEN conjunct2, THEN conjunct2,
      THEN conjunct2, THEN conjunct1]
  have v0: "WeightView (SetWeights (exampleLayer 2 1 0) 0) = {0 ..< 2}"
    using L [rule_format, of 0]
    by (simp add: exampleFFN_def exampleLayer_def weightOffset_def FFN_new_def eval_nat_numeral)
  have v1: "WeightView (SetWeights (exampleLayer 3 1 0) 2) = {2 ..< 5}"
    using L [rule_format, of 1]
    by (simp add: exampleFFN_def exampleLayer_def weightOffset_def FFN_new_def eval_nat_numeral)
  have d: "WeightView (SetWeights (exampleLayer 2 1 0) 0) \<inter>
           WeightView (SetWeights (exampleLayer 3 1 0) 2) = {}"
    using D [rule_format, of 0 1]
    by (simp add: exampleFFN_def exampleLayer_def weightOffset_def FFN_new_def eval_nat_numeral)
  show ?thesis
    by (intro conjI) (rule run, rule v0, rule v1, rule d)
qed


subsection \<open>Determinism mode\<close>

text \<open>
  C6 (the code differs). \<open>Train\<close> hands the optimizer the network as \<open>ResetData\<close> leaves
  it. There the network's own mode is train (\<open>deterministic = false\<close>), but
  \<open>ResetDeterministic\<close> has written \<open>true\<close> into the flag of every layer, whatever the
  mode: no layer reflects train mode.
\<close>

theorem ResetData_layers_deterministic:
  "deterministic (ResetData p r s) = False \<and>
   map Deterministic (network (ResetData p r s)) = replicate (length (network s)) True \<and>
   Train p r Optimize s = Optimize (ResetData p r s)"
  by (simp add: ResetData_def ResetDeterministic_def InitializeWeights_def
      NetworkInitialization_Initialize_def Train_def Let_def map_replicate_const comp_def)

subsection \<open>Loading a network\<close>

text \<open>
  C8. After loading, predictors and responses are empty, the sample count is zero, the
  three arenas own no memory and hold no elements, every per-layer matrix is the empty
  matrix, and the mode is inference; the output layer, the initialization rule, the layer
  list, the parameters, the input dimensions and the initialization flag are the
  archive's, and so those of the network that was saved.
\<close>

theorem serialize_load_discards_session:
  "predictors (serialize_load ar s) = empty_mat \<and>
   responses (serialize_load ar s) = empty_mat \<and>
   n_rows (predictors (serialize_load ar s)) * n_cols (predictors (serialize_load ar s)) = 0 \<and>
   n_rows (responses (serialize_load ar s)) * n_cols (responses (serialize_load ar s)) = 0 \<and>
   numFunctions (serialize_load ar s) = 0 \<and>
   layerOutputMatrix (serialize_load ar s) = no_arena \<and>
   deltaMatrix (serialize_load ar s) = no_arena \<and>
   gradientMatrix (serialize_load ar s) = no_arena \<and>
   n_elem (layerOutputMatrix (serialize_load ar s)) = 0 \<and>
   n_elem (deltaMatrix (serialize_load ar s)) = 0 \<and>
   n_elem (gradientMatrix (serialize_load ar s)) = 0 \<and>
   layerOutputs (serialize_load ar s) = replicate (length (ar_network ar)) EmptyMat \<and>
   layerDeltas (serialize_load ar s) = replicate (length (ar_network ar)) EmptyMat \<and>
   layerGradients (serialize_load ar s) = replicate (length (ar_network ar)) EmptyMat \<and>
   deterministic (serialize_load ar s) = True \<and>
   outputLayer (serialize_load ar s) = ar_outputLayer ar \<and>
   initializeRule (serialize_load ar s) = ar_initializeRule ar \<and>
   network (serialize_load ar s) = ar_network ar \<and>
   parameters (serialize_load ar s) = ar_parameters ar \<and>
   inputDimensions (serialize_load ar s) = ar_inputDimensions ar \<and>
   reset (serialize_load ar s) = ar_reset ar \<and>
   outputLayer (serialize_load (serialize_save s0) s) = outputLayer s0 \<and>
   initializeRule (serialize_load (serialize_save s0) s) = initializeRule s0 \<and>
   network (serialize_load (serialize_save s0) s) = network s0 \<and>
   parameters (serialize_load (serialize_save s0) s) = parameters s0 \<and>
   inputDimensions (serialize_load (serialize_save s0) s) = inputDimensions s0 \<and>
   reset (serialize_load (serialize_save s0) s) = reset s0"
  by (simp add: serialize_load_def serialize_save_def Let_def empty_mat_def no_arena_def)

subsection \<open>Output arena\<close>

lemma floor_tenth: "\<lfloor>0.1 * real n\<rfloor> = int (n div 10)"
proof -
  have "0.1 * real n = real n / real 10" by simp
  then show ?thesis by (simp only: floor_divide_of_nat_eq)
qed

lemma needsReallocation_div:
  "needsReallocation requested capacity reference =
     (requested > capacity \<or> requested < reference div 10)"
  by (simp only: needsReallocation_def floor_tenth of_int_of_nat_eq of_nat_less_iff)

lemma ForwardPassSizes_loop_eq:
  "ForwardPassSizes_loop net i a b =
     (a + sum_list (map OutputSize (drop i net)), b + sum_list (map OutputSize (drop i net)))"
proof (induction net i a b rule: ForwardPassSizes_loop.induct)
  case (1 net i a b)
  note unfold = ForwardPassSizes_loop.simps [of net i a b]
  show ?case
  proof (cases "i < length net")
    case False
    then show ?thesis by (simp add: unfold)
  next
    case True
    have "ForwardPassSizes_loop net i a b =
          ForwardPassSizes_loop net (Suc i) (a + OutputSize (net ! i)) (b + OutputSize (net ! i))"
      using True by (simp add: unfold Let_def)
    also have "\<dots> = (a + OutputSize (net ! i) + sum_list (map OutputSize (drop (Suc i) net)),
                     b + OutputSize (net ! i) + sum_list (map OutputSize (drop (Suc i) net)))"
      using "1.IH" [OF True refl refl] True by simp
    finally show ?thesis by (simp add: sum_drop_step [OF True] add.assoc)
  qed
qed

lemma outputOffset_Suc:
  "i < length net \<Longrightarrow>
     outputOffset net b (Suc i) = outputOffset net b i + b * OutputSize (net ! i)"
  by (simp add: outputOffset_def take_Suc_conv_app_nth distrib_left)

lemma outputOffset_le_total:
  "outputOffset net b i \<le> b * outputTotal net"
proof -
  have "sum_list (map OutputSize net) =
        sum_list (map OutputSize (take i net)) + sum_list (map OutputSize (drop i net))"
    by (metis append_take_drop_id map_append sum_list.append)
  then show ?thesis by (simp add: outputOffset_def outputTotal_def)
qed

lemma ForwardAlias_loop_spec:
  assumes "length outs \<le> length net"
  shows "\<exists>outs'. ForwardAlias_loop net b (outputTotal net) mem outs i (outputOffset net b i) = Inr outs' \<and>
           length outs' = length outs \<and>
           (\<forall>k<length outs. outs' ! k =
              (if k < i then outs ! k
               else Alias mem (outputOffset net b k) (OutputSize (net ! k)) b))"
  using assms
proof (induction "length outs - i" arbitrary: i outs)
  case 0
  then have "\<not> i < length outs" by simp
  then show ?case
    by (simp add: ForwardAlias_loop.simps [of net b "outputTotal net" mem outs i])
next
  case (Suc d)
  then have i: "i < length outs" and inet: "i < length net" by simp_all
  let ?outs2 = "MakeAlias outs i (mem, outputOffset net b i) (OutputSize (net ! i)) b"
  have len2: "length ?outs2 = length outs" by (simp add: MakeAlias_def)
  have ok: "outputOffset net b i + OutputSize (net ! i) * b \<le> b * outputTotal net"
    using outputOffset_le_total [of net b "Suc i"] by (simp add: outputOffset_Suc [OF inet] mult.commute)
  have step: "ForwardAlias_loop net b (outputTotal net) mem outs i (outputOffset net b i) =
              ForwardAlias_loop net b (outputTotal net) mem ?outs2 (Suc i) (outputOffset net b (Suc i))"
    using i inet ok
    by (simp add: ForwardAlias_loop.simps [of net b "outputTotal net" mem outs i] Let_def
        outputOffset_Suc [OF inet])
  have d: "d = length ?outs2 - Suc i" using Suc.hyps(2) len2 by simp
  have le2: "length ?outs2 \<le> length net" using Suc.prems len2 by simp
  from Suc.hyps(1) [OF d le2] obtain outs' where
    r: "ForwardAlias_loop net b (outputTotal net) mem ?outs2 (Suc i) (outputOffset net b (Suc i)) = Inr outs'"
    and l: "length outs' = length ?outs2"
    and e: "\<forall>k<length ?outs2. outs' ! k =
              (if k < Suc i then ?outs2 ! k
               else Alias mem (outputOffset net b k) (OutputSize (net ! k)) b)"
    by blast
  have "\<forall>k<length outs. outs' ! k =
              (if k < i then outs ! k
               else Alias mem (outputOffset net b k) (OutputSize (net ! k)) b)"
  proof (intro allI impI)
    fix k assume k: "k < length outs"
    with e len2 have ek: "outs' ! k = (if k < Suc i then ?outs2 ! k
               else Alias mem (outputOffset net b k) (OutputSize (net ! k)) b)" by simp
    show "outs' ! k = (if k < i then outs ! k
               else Alias mem (outputOffset net b k) (OutputSize (net ! k)) b)"
      using ek k i by (cases "k = i") (auto simp: MakeAlias_def)
  qed
  with step r l len2 show ?case by simp
qed

lemma ForwardAlias_loop_short:
  assumes "length net < length outs" "i \<le> length net"
  shows "ForwardAlias_loop net b tot mem outs i start = Inl IndexOutOfRange \<or>
         (\<exists>a. ForwardAlias_loop net b tot mem outs i start = Inl (AssertFailed a))"
  using assms
proof (induction "length net - i" arbitrary: i outs start)
  case 0
  then have e: "i = length net" by simp
  from 0 show ?case unfolding e
    by (simp add: ForwardAlias_loop.simps [of net b tot mem outs "length net" start])
next
  case (Suc d)
  then have inet: "i < length net" and i: "i < length outs" by simp_all
  let ?los = "OutputSize (net ! i)"
  let ?outs2 = "MakeAlias outs i (mem, start) ?los b"
  show ?case
  proof (cases "start + ?los * b \<le> b * tot")
    case False
    then show ?thesis using i inet
      by (simp add: ForwardAlias_loop.simps [of net b tot mem outs i start] Let_def)
  next
    case True
    have len2: "length net < length ?outs2" using Suc.prems by (simp add: MakeAlias_def)
    have d: "d = length net - Suc i" using Suc.hyps(2) by simp
    have "ForwardAlias_loop net b tot mem outs i start =
          ForwardAlias_loop net b tot mem ?outs2 (Suc i) (start + b * ?los)"
      using True i inet
      by (simp add: ForwardAlias_loop.simps [of net b tot mem outs i start] Let_def)
    with Suc.hyps(1) [OF d len2, of "start + b * ?los"] inet show ?thesis by simp
  qed
qed


lemma outputOffset_0 [simp]: "outputOffset net b 0 = 0"
  by (simp add: outputOffset_def)

text \<open>
  C2. With \<open>layerOutputs\<close> no longer than the layer list, \<open>InitializeForwardPassMemory\<close>
  returns. It allocates a new output arena, of exactly \<open>batchSize * totalOutputSize\<close>
  elements, exactly when that product exceeds the arena's element count or lies strictly
  below \<open>floor(0.1 * element count)\<close>; otherwise the arena is the allocation it was. In
  both cases entry \<open>i\<close> of \<open>layerOutputs\<close> becomes the alias of \<open>OutputSize\<close> rows and
  \<open>batchSize\<close> columns at the offset of the outputs before it, inside the arena, and
  nothing but the two totals, the arena, the aliases and the allocation count changes.
\<close>

theorem InitializeForwardPassMemory_hysteresis:
  assumes "length (layerOutputs s) \<le> length (network s)"
  shows "\<exists>s'. InitializeForwardPassMemory b s = Inr s' \<and>
     totalOutputSize s' = outputTotal (network s) \<and>
     totalInputSize s' = to_size_t (accumulate (inputDimensions s) 0) + outputTotal (network s) \<and>
     (allocations s' \<noteq> allocations s) =
       (b * totalOutputSize s' > n_elem (layerOutputMatrix s) \<or>
        real (b * totalOutputSize s') < of_int \<lfloor>0.1 * real (n_elem (layerOutputMatrix s))\<rfloor>) \<and>
     (if b * totalOutputSize s' > n_elem (layerOutputMatrix s) \<or>
         real (b * totalOutputSize s') < of_int \<lfloor>0.1 * real (n_elem (layerOutputMatrix s))\<rfloor>
      then layerOutputMatrix s' = \<lparr>alloc = allocations s, n_elem = b * totalOutputSize s'\<rparr> \<and>
           allocations s' = Suc (allocations s)
      else layerOutputMatrix s' = layerOutputMatrix s \<and> allocations s' = allocations s) \<and>
     length (layerOutputs s') = length (layerOutputs s) \<and>
     (\<forall>i<length (layerOutputs s).
        layerOutputs s' ! i =
          Alias (alloc (layerOutputMatrix s')) (outputOffset (network s) b i)
            (OutputSize (network s ! i)) b) \<and>
     s' = s\<lparr>totalInputSize := totalInputSize s', totalOutputSize := totalOutputSize s',
            layerOutputMatrix := layerOutputMatrix s', layerOutputs := layerOutputs s',
            allocations := allocations s'\<rparr>"
proof -
  let ?tot = "outputTotal (network s)"
  let ?tin = "to_size_t (accumulate (inputDimensions s) 0) + ?tot"
  let ?s1 = "s\<lparr>totalInputSize := ?tin, totalOutputSize := ?tot\<rparr>"
  let ?c = "needsReallocation (b * ?tot) (n_elem (layerOutputMatrix s)) (n_elem (layerOutputMatrix s))"
  have sizes: "ForwardPassSizes_loop (network s) 0 (to_size_t (accumulate (inputDimensions s) 0)) 0
      = (?tin, ?tot)"
    by (simp add: ForwardPassSizes_loop_eq outputTotal_def)
  show ?thesis
  proof (cases ?c)
    case True
    then have c': "b * ?tot > n_elem (layerOutputMatrix s) \<or>
        real (b * ?tot) < of_int \<lfloor>0.1 * real (n_elem (layerOutputMatrix s))\<rfloor>"
      by (simp add: needsReallocation_def)
    let ?s2 = "?s1\<lparr>allocations := Suc (allocations s),
                   layerOutputMatrix := \<lparr>alloc = allocations s, n_elem = b * ?tot\<rparr>\<rparr>"
    from ForwardAlias_loop_spec [OF assms, of b "allocations s" 0]
    obtain outs' where
      r: "ForwardAlias_loop (network s) b ?tot (allocations s) (layerOutputs s) 0 0 = Inr outs'"
      and l: "length outs' = length (layerOutputs s)"
      and e: "\<forall>k<length (layerOutputs s). outs' ! k =
                Alias (allocations s) (outputOffset (network s) b k)
                  (OutputSize (network s ! k)) b"
      by auto
    have run: "InitializeForwardPassMemory b s = Inr (?s2\<lparr>layerOutputs := outs'\<rparr>)"
      unfolding InitializeForwardPassMemory_def sizes
      using r True by (simp add: Let_def allocate_def)
    show ?thesis
      apply (rule exI [of _ "?s2\<lparr>layerOutputs := outs'\<rparr>"])
      using run c' l e by simp
  next
    case False
    then have c': "\<not> (b * ?tot > n_elem (layerOutputMatrix s) \<or>
        real (b * ?tot) < of_int \<lfloor>0.1 * real (n_elem (layerOutputMatrix s))\<rfloor>)"
      by (simp add: needsReallocation_def)
    from ForwardAlias_loop_spec [OF assms, of b "alloc (layerOutputMatrix s)" 0]
    obtain outs' where
      r: "ForwardAlias_loop (network s) b ?tot (alloc (layerOutputMatrix s)) (layerOutputs s) 0 0
            = Inr outs'"
      and l: "length outs' = length (layerOutputs s)"
      and e: "\<forall>k<length (layerOutputs s). outs' ! k =
                Alias (alloc (layerOutputMatrix s)) (outputOffset (network s) b k)
                  (OutputSize (network s ! k)) b"
      by auto
    have run: "InitializeForwardPassMemory b s = Inr (?s1\<lparr>layerOutputs := outs'\<rparr>)"
      unfolding InitializeForwardPassMemory_def sizes
      using r False by (simp add: Let_def allocate_def)
    show ?thesis
      apply (rule exI [of _ "?s1\<lparr>layerOutputs := outs'\<rparr>"])
      using run c' l e by simp
  qed
qed

lemmas example_defs = exampleFFN_def exampleLayer_def FFN_new_def no_arena_def
  empty_mat_def

lemmas memory_simps = InitializeForwardPassMemory_def InitializeBackwardPassMemory_def
  ForwardPassSizes_loop.simps ForwardAlias_loop.simps BackwardAlias_loop.simps
  needsReallocation_div allocate_def accumulate_def to_int_def to_size_t_def OutputSize_def MakeAlias_def andThen_def
  Let_def

theorem InitializeForwardPassMemory_hysteresis_witness:
  "map_sum id layerOutputMatrix
     (InitializeForwardPassMemory 50
        (hysteresisExample\<lparr>layerOutputMatrix := \<lparr>alloc = 1, n_elem = 200\<rparr>, allocations := 2\<rparr>))
     = Inr \<lparr>alloc = 1, n_elem = 200\<rparr> \<and>
   map_sum id layerOutputMatrix
     (InitializeForwardPassMemory 5
        (hysteresisExample\<lparr>layerOutputMatrix := \<lparr>alloc = 1, n_elem = 200\<rparr>, allocations := 2\<rparr>))
     = Inr \<lparr>alloc = 2, n_elem = 10\<rparr> \<and>
   map_sum id layerOutputs
     (InitializeForwardPassMemory 50
        (hysteresisExample\<lparr>layerOutputMatrix := \<lparr>alloc = 1, n_elem = 200\<rparr>, allocations := 2\<rparr>))
     = Inr [Alias 1 0 1 50, Alias 1 50 1 50]"
proof -
  let ?s = "hysteresisExample\<lparr>layerOutputMatrix := \<lparr>alloc = 1, n_elem = 200\<rparr>, allocations := 2\<rparr>"
  have len: "length (layerOutputs ?s) \<le> length (network ?s)"
    by (simp add: hysteresisExample_def example_defs)
  have tot: "outputTotal (network ?s) = 2"
    by (simp add: hysteresisExample_def example_defs outputTotal_def OutputSize_def)
  from InitializeForwardPassMemory_hysteresis [OF len, of 50] obtain s1 where
    r1: "InitializeForwardPassMemory 50 ?s = Inr s1"
    and t1: "totalOutputSize s1 = outputTotal (network ?s)"
    and m1: "(if 50 * totalOutputSize s1 > n_elem (layerOutputMatrix ?s) \<or>
         real (50 * totalOutputSize s1) < of_int \<lfloor>0.1 * real (n_elem (layerOutputMatrix ?s))\<rfloor>
      then layerOutputMatrix s1 = \<lparr>alloc = allocations ?s, n_elem = 50 * totalOutputSize s1\<rparr> \<and>
           allocations s1 = Suc (allocations ?s)
      else layerOutputMatrix s1 = layerOutputMatrix ?s \<and> allocations s1 = allocations ?s)"
    and l1: "length (layerOutputs s1) = length (layerOutputs ?s)"
    and v1: "\<forall>i<length (layerOutputs ?s).
        layerOutputs s1 ! i =
          Alias (alloc (layerOutputMatrix s1)) (outputOffset (network ?s) 50 i)
            (OutputSize (network ?s ! i)) 50"
    by blast
  have a1: "layerOutputMatrix s1 = \<lparr>alloc = 1, n_elem = 200\<rparr>"
    using m1 unfolding t1 tot by (simp add: floor_tenth)
  have "layerOutputs s1 = [Alias 1 0 1 50, Alias 1 50 1 50]"
    using l1 v1 [rule_format, of 0] v1 [rule_format, of 1] a1
    by (simp add: hysteresisExample_def example_defs outputOffset_def OutputSize_def
        list_eq_iff_nth_eq less_Suc_eq
        eval_nat_numeral)
  with r1 a1 have A: "map_sum id layerOutputMatrix (InitializeForwardPassMemory 50 ?s)
       = Inr \<lparr>alloc = 1, n_elem = 200\<rparr>"
    and C: "map_sum id layerOutputs (InitializeForwardPassMemory 50 ?s)
       = Inr [Alias 1 0 1 50, Alias 1 50 1 50]"
    by simp_all
  from InitializeForwardPassMemory_hysteresis [OF len, of 5] obtain s2 where
    r2: "InitializeForwardPassMemory 5 ?s = Inr s2"
    and t2: "totalOutputSize s2 = outputTotal (network ?s)"
    and m2: "(if 5 * totalOutputSize s2 > n_elem (layerOutputMatrix ?s) \<or>
         real (5 * totalOutputSize s2) < of_int \<lfloor>0.1 * real (n_elem (layerOutputMatrix ?s))\<rfloor>
      then layerOutputMatrix s2 = \<lparr>alloc = allocations ?s, n_elem = 5 * totalOutputSize s2\<rparr> \<and>
           allocations s2 = Suc (allocations ?s)
      else layerOutputMatrix s2 = layerOutputMatrix ?s \<and> allocations s2 = allocations ?s)"
    by blast
  have "layerOutputMatrix s2 = \<lparr>alloc = 2, n_elem = 10\<rparr>"
    using m2 unfolding t2 tot by (simp add: floor_tenth)
  with r2 have B: "map_sum id layerOutputMatrix (InitializeForwardPassMemory 5 ?s)
       = Inr \<lparr>alloc = 2, n_elem = 10\<rparr>" by simp
  show ?thesis by (intro conjI) (rule A, rule B, rule C)
qed

subsection \<open>Delta arena\<close>

text \<open>
  What the code does: the grow test reads the delta arena, the shrink test the output
  arena.
\<close>

lemma InitializeBackwardPassMemory_condition:
  assumes "InitializeBackwardPassMemory b s = Inr s'"
  shows "(allocations s' \<noteq> allocations s) =
           (b * totalInputSize s > n_elem (deltaMatrix s) \<or>
            real (b * totalInputSize s) < of_int \<lfloor>0.1 * real (n_elem (layerOutputMatrix s))\<rfloor>)"
    and "(if allocations s' \<noteq> allocations s
          then deltaMatrix s' = \<lparr>alloc = allocations s, n_elem = b * totalInputSize s\<rparr>
          else deltaMatrix s' = deltaMatrix s)"
  using assms
  by (auto simp: InitializeBackwardPassMemory_def Let_def allocate_def needsReallocation_def
      split: if_splits sum.splits)

text \<open>
  C3 (the code differs). A pass at batch size 100 leaves a delta arena of 300 elements.
  At the next pass, at batch size 1, the output arena is reallocated to 2 elements before
  the backward pass looks at it; the delta arena is asked for 3 elements, which is below
  10 percent of its 300, and it is not reallocated, because the shrink test compares 3
  with 10 percent of the output arena's 2 elements.
\<close>

theorem InitializeBackwardPassMemory_no_shrink:
  "andThen (InitializeForwardPassMemory 100 hysteresisExample) (\<lambda>s1.
   andThen (InitializeBackwardPassMemory 100 s1) (\<lambda>s2.
   andThen (InitializeForwardPassMemory 1 s2) (\<lambda>s3.
   andThen (InitializeBackwardPassMemory 1 s3) (\<lambda>s4.
     Inr (deltaMatrix s2, layerOutputMatrix s2, 1 * totalInputSize s3, layerOutputMatrix s3,
          deltaMatrix s4)))))
   = Inr (\<lparr>alloc = 2, n_elem = 300\<rparr>, \<lparr>alloc = 1, n_elem = 200\<rparr>, 3, \<lparr>alloc = 3, n_elem = 2\<rparr>,
          \<lparr>alloc = 2, n_elem = 300\<rparr>)"
  by (simp add: hysteresisExample_def example_defs memory_simps)

subsection \<open>Gradient pass\<close>

lemma GradientAlias_loop_spec:
  assumes "length grads \<le> length net"
  shows "\<exists>grads'. GradientAlias_loop net mem grads i (weightOffset net i) = Inr grads' \<and>
           length grads' = length grads \<and>
           (\<forall>k<length grads. grads' ! k =
              (if k < i then grads ! k
               else Alias mem (weightOffset net k) (WeightSize (net ! k)) 1))"
  using assms
proof (induction "length grads - i" arbitrary: i grads)
  case 0
  then have "\<not> i < length grads" by simp
  then show ?case
    by (simp add: GradientAlias_loop.simps [of net mem grads i])
next
  case (Suc d)
  then have i: "i < length grads" and inet: "i < length net" by simp_all
  let ?g2 = "MakeAlias grads i (mem, weightOffset net i) (WeightSize (net ! i)) 1"
  have len2: "length ?g2 = length grads" by (simp add: MakeAlias_def)
  have step: "GradientAlias_loop net mem grads i (weightOffset net i) =
              GradientAlias_loop net mem ?g2 (Suc i) (weightOffset net (Suc i))"
    using i inet
    by (simp add: GradientAlias_loop.simps [of net mem grads i] Let_def weightOffset_Suc [OF inet])
  have d: "d = length ?g2 - Suc i" using Suc.hyps(2) len2 by simp
  have le2: "length ?g2 \<le> length net" using Suc.prems len2 by simp
  from Suc.hyps(1) [OF d le2] obtain grads' where
    r: "GradientAlias_loop net mem ?g2 (Suc i) (weightOffset net (Suc i)) = Inr grads'"
    and l: "length grads' = length ?g2"
    and e: "\<forall>k<length ?g2. grads' ! k =
              (if k < Suc i then ?g2 ! k
               else Alias mem (weightOffset net k) (WeightSize (net ! k)) 1)"
    by blast
  have "\<forall>k<length grads. grads' ! k =
              (if k < i then grads ! k
               else Alias mem (weightOffset net k) (WeightSize (net ! k)) 1)"
  proof (intro allI impI)
    fix k assume k: "k < length grads"
    with e len2 have ek: "grads' ! k = (if k < Suc i then ?g2 ! k
               else Alias mem (weightOffset net k) (WeightSize (net ! k)) 1)" by simp
    show "grads' ! k = (if k < i then grads ! k
               else Alias mem (weightOffset net k) (WeightSize (net ! k)) 1)"
      using ek k i by (cases "k = i") (auto simp: MakeAlias_def)
  qed
  with step r l len2 show ?case by simp
qed

lemma Gradient_loop_spec:
  assumes "2 \<le> length (network s)" "1 \<le> i" "i \<le> length (network s) - 1"
    and "length (layerOutputs s) = length (network s)"
    and "length (layerDeltas s) = length (network s)"
    and "length (layerGradients s) = length (network s)"
  shows "Gradient_loop i s =
           Inr (s\<lparr>trace := trace s @ map innerGradientCall [i ..< length (network s) - 1]\<rparr>)"
  using assms
proof (induction "length (network s) - 1 - i" arbitrary: i s)
  case 0
  then have e: "i = length (network s) - 1" by simp
  have ne: "network s \<noteq> []" using "0.prems" by auto
  have stop: "\<not> i < size_minus_one (length (network s))"
    using e ne by (simp add: size_minus_one_def)
  have up: "[i ..< length (network s) - 1] = []" using e by simp
  show ?case
    by (subst Gradient_loop.simps) (use stop e in simp)
next
  case (Suc d)
  let ?s2 = "record_call (innerGradientCall i) s"
  have lt: "i < length (network s) - 1" using Suc.hyps(2) by simp
  have ne: "network s \<noteq> []" using Suc.prems by auto
  have lt': "i < size_minus_one (length (network s))"
    using lt ne by (simp add: size_minus_one_def)
  have chk: "\<not> (length (network s) \<le> i \<or> length (layerOutputs s) \<le> i - 1 \<or>
            length (layerDeltas s) \<le> i + 1 \<or> length (layerGradients s) \<le> i)"
    using lt Suc.prems by auto
  have step: "Gradient_loop i s = Gradient_loop (Suc i) ?s2"
    by (subst Gradient_loop.simps) (simp only: lt' chk if_True if_False innerGradientCall_def)
  have d: "d = length (network ?s2) - 1 - Suc i"
    using Suc.hyps(2) by (simp add: record_call_def)
  have "Gradient_loop (Suc i) ?s2 =
          Inr (?s2\<lparr>trace := trace ?s2 @ map innerGradientCall [Suc i ..< length (network ?s2) - 1]\<rparr>)"
    using Suc.prems lt by (intro Suc.hyps(1) [OF d]) (simp_all add: record_call_def)
  also have "\<dots> = Inr (s\<lparr>trace := trace s @ map innerGradientCall [i ..< length (network s) - 1]\<rparr>)"
    using lt by (simp add: record_call_def upt_conv_Cons)
  finally show ?case using step by simp
qed

text \<open>
  C7. For a network of at least two layers whose per-layer matrix lists have one entry
  per layer, \<open>Gradient\<close> returns and makes exactly one call per layer, in layer order:
  layer 0 on the raw input and \<open>layerDeltas[1]\<close>; layer \<open>i\<close> strictly between on
  \<open>layerOutputs[i - 1]\<close> and \<open>layerDeltas[i + 1]\<close>; the last layer on the output of the
  layer before it and \<open>error\<close>, the loss-error signal, which is no delta. Each call writes
  the layer's gradient alias, which lies in the caller's buffer at the layer's weight
  offset.
\<close>

theorem Gradient_operands:
  assumes "2 \<le> length (network s)"
    and "length (layerOutputs s) = length (network s)"
    and "length (layerDeltas s) = length (network s)"
    and "length (layerGradients s) = length (network s)"
  shows "\<exists>s'. Gradient input gradient s = Inr s' \<and>
     network s' = network s \<and>
     take (length (trace s)) (trace s') = trace s \<and>
     length (drop (length (trace s)) (trace s')) = length (network s) \<and>
     drop (length (trace s)) (trace s') ! 0 =
       LayerGradient 0 (Inputs input) (LayerDeltas 1) (LayerGradients 0) \<and>
     (\<forall>i. 0 < i \<and> i < length (network s) - 1 \<longrightarrow>
        drop (length (trace s)) (trace s') ! i =
          LayerGradient i (LayerOutputs (i - 1)) (LayerDeltas (i + 1)) (LayerGradients i)) \<and>
     drop (length (trace s)) (trace s') ! (length (network s) - 1) =
       LayerGradient (length (network s) - 1) (LayerOutputs (length (network s) - 2)) Error
         (LayerGradients (length (network s) - 1)) \<and>
     (\<forall>i<length (network s).
        layerGradients s' ! i =
          Alias (alloc gradient) (weightOffset (network s) i) (WeightSize (network s ! i)) 1)"
proof -
  let ?n = "length (network s)"
  have le: "length (layerGradients s) \<le> length (network s)" using assms by simp
  from GradientAlias_loop_spec [OF le, of "alloc gradient" 0] obtain grads where
    g: "GradientAlias_loop (network s) (alloc gradient) (layerGradients s) 0 0 = Inr grads"
    and gl: "length grads = length (layerGradients s)"
    and ge: "\<forall>k<length (layerGradients s). grads ! k =
               Alias (alloc gradient) (weightOffset (network s) k) (WeightSize (network s ! k)) 1"
    by (auto simp: weightOffset_def)
  let ?s1 = "s\<lparr>layerGradients := grads\<rparr>"
  let ?c0 = "LayerGradient 0 (Inputs input) (LayerDeltas 1) (LayerGradients 0)"
  let ?s1' = "record_call ?c0 ?s1"
  let ?last = "LayerGradient (?n - 1) (LayerOutputs (?n - 2)) Error (LayerGradients (?n - 1))"
  let ?calls = "?c0 # map innerGradientCall [1 ..< ?n - 1] @ [?last]"
  have init: "InitializeGradientPassMemory gradient s = Inr ?s1"
    using g by (simp add: InitializeGradientPassMemory_def)
  have loop: "Gradient_loop 1 ?s1' =
        Inr (?s1'\<lparr>trace := trace ?s1' @ map innerGradientCall [1 ..< ?n - 1]\<rparr>)"
    using Gradient_loop_spec [of ?s1' 1] assms gl by (simp add: record_call_def)
  have ne: "network s \<noteq> []" "grads \<noteq> []" "\<not> ?n \<le> ?n - 2" "\<not> ?n < 2"
    using assms gl by auto
  have run: "Gradient input gradient s = Inr (?s1\<lparr>trace := trace s @ ?calls\<rparr>)"
    unfolding Gradient_def init andThen_def sum.case
    using assms gl loop ne
    by (simp add: record_call_def size_minus_two_def)
  have len: "length ?calls = ?n" using assms by simp
  have c0: "?calls ! 0 = ?c0" by simp
  have inner: "?calls ! i = innerGradientCall i" if "0 < i" "i < ?n - 1" for i
  proof -
    from that obtain j where j: "i = Suc j" by (cases i) auto
    with that have "j < length (map innerGradientCall [1 ..< ?n - 1])" by simp
    then have "(map innerGradientCall [1 ..< ?n - 1] @ [?last]) ! j = innerGradientCall (1 + j)"
      by (simp add: nth_append)
    then show ?thesis by (simp add: j)
  qed
  have lastc: "?calls ! (?n - 1) = ?last"
  proof -
    from assms obtain j where j: "?n - 1 = Suc j" "j = ?n - 2" by (cases "?n - 1") auto
    have "length (map innerGradientCall [1 ..< ?n - 1]) = j" using j by (simp, arith)
    then have "(map innerGradientCall [1 ..< ?n - 1] @ [?last]) ! j = ?last"
      by (metis nth_append_length)
    then show ?thesis using j(1) by simp
  qed
  show ?thesis
    apply (rule exI [of _ "?s1\<lparr>trace := trace s @ ?calls\<rparr>"])
    using run len c0 inner lastc ge gl assms
    by (simp add: innerGradientCall_def)
qed

theorem Gradient_operands_witness:
  "map_sum id trace
     (Gradient \<lparr>n_rows = 1, n_cols = 1, first_col = 0\<rparr> \<lparr>alloc = 9, n_elem = 3\<rparr>
        (exampleFFN [exampleLayer 1 1 0, exampleLayer 1 1 0, exampleLayer 1 1 0] 3)) =
   Inr [LayerGradient 0 (Inputs \<lparr>n_rows = 1, n_cols = 1, first_col = 0\<rparr>) (LayerDeltas 1)
          (LayerGradients 0),
        LayerGradient 1 (LayerOutputs 0) (LayerDeltas 2) (LayerGradients 1),
        LayerGradient 2 (LayerOutputs 1) Error (LayerGradients 2)]"
proof -
  let ?s = "exampleFFN [exampleLayer 1 1 0, exampleLayer 1 1 0, exampleLayer 1 1 0] 3"
  let ?in = "\<lparr>n_rows = 1, n_cols = 1, first_col = 0\<rparr>"
  have h: "2 \<le> length (network ?s)" "length (layerOutputs ?s) = length (network ?s)"
    "length (layerDeltas ?s) = length (network ?s)"
    "length (layerGradients ?s) = length (network ?s)"
    by (simp_all add: exampleFFN_def)
  have n: "length (network ?s) = 3" and t: "trace ?s = []"
    by (simp_all add: exampleFFN_def FFN_new_def)
  from Gradient_operands [OF h, of ?in "\<lparr>alloc = 9, n_elem = 3\<rparr>"] obtain s' where
    run: "Gradient ?in \<lparr>alloc = 9, n_elem = 3\<rparr> ?s = Inr s'"
    and len: "length (trace s') = 3"
    and c0: "trace s' ! 0 = LayerGradient 0 (Inputs ?in) (LayerDeltas 1) (LayerGradients 0)"
    and ci: "\<forall>i. 0 < i \<and> i < 2 \<longrightarrow>
        trace s' ! i = LayerGradient i (LayerOutputs (i - 1)) (LayerDeltas (i + 1)) (LayerGradients i)"
    and cl: "trace s' ! 2 = LayerGradient 2 (LayerOutputs 1) Error (LayerGradients 2)"
    unfolding n t by auto
  from ci [rule_format, of 1]
  have c1: "trace s' ! 1 = LayerGradient 1 (LayerOutputs 0) (LayerDeltas 2) (LayerGradients 1)"
    by simp
  have "trace s' = [trace s' ! 0, trace s' ! 1, trace s' ! 2]"
    using len by (simp add: list_eq_iff_nth_eq less_Suc_eq eval_nat_numeral)
  then show ?thesis using run c0 c1 cl by simp
qed


subsection \<open>Input-shape check of Forward\<close>

lemma ForwardAlias_loop_Inl:
  "ForwardAlias_loop net b tot mem outs i start = Inl e \<Longrightarrow>
     e = IndexOutOfRange \<or> e = AssertFailed AliasOutsideBounds"
proof (induction net b tot mem outs i start rule: ForwardAlias_loop.induct)
  case (1 net b tot mem outs i start)
  from "1.prems" show ?case
    apply (subst (asm) ForwardAlias_loop.simps)
    apply (simp add: Let_def Log_Assert_def split: if_splits)
    using "1.IH" by (simp add: Log_Assert_def)
qed

lemma InitializeForwardPassMemory_Inl:
  "InitializeForwardPassMemory b s = Inl e \<Longrightarrow>
     e = IndexOutOfRange \<or> e = AssertFailed AliasOutsideBounds"
  by (auto simp: InitializeForwardPassMemory_def Let_def split: prod.splits sum.splits if_splits
      dest: ForwardAlias_loop_Inl)

lemma Forward_loop_Inl:
  "Forward_loop first final i s = Inl e \<Longrightarrow> e = IndexOutOfRange"
proof (induction first final i s rule: Forward_loop.induct)
  case (1 first final i s)
  from "1.prems" show ?case
    apply (subst (asm) Forward_loop.simps)
    apply (simp split: if_splits)
    using "1.IH" by simp
qed

lemma SetLayerMemory_total:
  assumes "totalWeightSizeOf (network s) = length (parameters s)"
  shows "\<exists>s'. SetLayerMemory s = Inr s'"
proof (cases "SetLayerMemory s")
  case (Inl e)
  from SetLayerMemory_Inl [OF Inl] assms show ?thesis by simp
next
  case (Inr s')
  then show ?thesis by blast
qed

lemma SetLayerMemory_frame:
  assumes "SetLayerMemory s = Inr s'"
  shows "map InputDimensions (network s') = map InputDimensions (network s)"
    and "inputDimensions s' = inputDimensions s"
    and "inputDimensionsAreSet s' = inputDimensionsAreSet s"
proof -
  note R = SetLayerMemory_Inr [OF assms]
  show "map InputDimensions (network s') = map InputDimensions (network s)"
    using R(3) R(4) by (simp add: list_eq_iff_nth_eq SetWeights_def)
  from R(2) have "inputDimensions s' = inputDimensions (s\<lparr>network := network s', layerMemoryIsSet := True\<rparr>)"
    by simp
  then show "inputDimensions s' = inputDimensions s" by simp
  from R(2) have "inputDimensionsAreSet s' = inputDimensionsAreSet (s\<lparr>network := network s', layerMemoryIsSet := True\<rparr>)"
    by simp
  then show "inputDimensionsAreSet s' = inputDimensionsAreSet s" by simp
qed

lemma totalWeightSizeOf_InitializeWeights:
  "totalWeightSizeOf (network (InitializeWeights s)) = totalWeightSizeOf (network s)"
  by (simp add: InitializeWeights_def NetworkInitialization_Initialize_def ResetDeterministic_def
      totalWeightSizeOf_def Let_def comp_def)

lemma InitializeWeights_frame:
  "map InputDimensions (network (InitializeWeights s)) = map InputDimensions (network s)"
  "inputDimensions (InitializeWeights s) = inputDimensions s"
  "inputDimensionsAreSet (InitializeWeights s) = inputDimensionsAreSet s"
  "layerMemoryIsSet (InitializeWeights s) = layerMemoryIsSet s"
  "parameters s = [] \<Longrightarrow>
     length (parameters (InitializeWeights s)) = totalWeightSizeOf (network s)"
  by (simp_all add: InitializeWeights_def NetworkInitialization_Initialize_def
      ResetDeterministic_def Let_def comp_def totalWeightSizeOf_def)

text \<open>The steps of Forward before the input dimensions are looked at.\<close>

lemma Forward_prepare:
  assumes "parameters s = [] \<or> layerMemoryIsSet s \<or>
           totalWeightSizeOf (network s) = length (parameters s)"
  shows "\<exists>s2. (if \<not> layerMemoryIsSet (if parameters s = [] then InitializeWeights s else s)
               then SetLayerMemory (if parameters s = [] then InitializeWeights s else s)
               else Inr (if parameters s = [] then InitializeWeights s else s)) = Inr s2 \<and>
           map InputDimensions (network s2) = map InputDimensions (network s) \<and>
           inputDimensions s2 = inputDimensions s \<and>
           inputDimensionsAreSet s2 = inputDimensionsAreSet s"
proof -
  let ?s1 = "if parameters s = [] then InitializeWeights s else s"
  have f1: "map InputDimensions (network ?s1) = map InputDimensions (network s)"
    "inputDimensions ?s1 = inputDimensions s"
    "inputDimensionsAreSet ?s1 = inputDimensionsAreSet s"
    by (simp_all add: InitializeWeights_frame)
  show ?thesis
  proof (cases "layerMemoryIsSet ?s1")
    case True
    then show ?thesis using f1 by (simp only: not_True_eq_False if_False) blast
  next
    case False
    then have ns: "\<not> layerMemoryIsSet s" by (simp add: InitializeWeights_frame split: if_splits)
    have "totalWeightSizeOf (network ?s1) = length (parameters ?s1)"
      using assms ns
      by (auto simp: InitializeWeights_frame totalWeightSizeOf_InitializeWeights)
    from SetLayerMemory_total [OF this] obtain s2 where r: "SetLayerMemory ?s1 = Inr s2" ..
    from SetLayerMemory_frame [OF r] f1 have
      "map InputDimensions (network s2) = map InputDimensions (network s) \<and>
       inputDimensions s2 = inputDimensions s \<and>
       inputDimensionsAreSet s2 = inputDimensionsAreSet s" by simp
    with r False show ?thesis by (simp only: not_False_eq_True if_True) blast
  qed
qed

lemma accumulate_flat:
  assumes "length ds \<le> 1" "ds \<noteq> []" "\<forall>d\<in>set ds. d < 2 ^ 31"
  shows "to_size_t (accumulate ds 0) = prod_list ds"
proof -
  from assms obtain d where ds: "ds = [d]" and d: "d < 2 ^ 31"
    by (cases ds) auto
  have "int d < 2 ^ 31" using d by (metis of_nat_less_iff of_nat_numeral of_nat_power)
  then have "to_int (int d) = int d"
    by (simp add: to_int_def zmod_trivial_iff)
  moreover have "d mod 2 ^ 64 = d" using d by simp
  ultimately show ?thesis
    using d by (simp add: ds accumulate_def to_size_t_def)
qed

lemma Forward_inputDimensions_check:
  "(Forward_inputDimensions inputs s = Inl (AssertFailed InputSizeMismatch)) =
     (network s \<noteq> [] \<and>
      (InputDimensions (hd (network s)) \<noteq> inputDimensions s \<or> \<not> inputDimensionsAreSet s) \<and>
      to_size_t (accumulate
        (if inputDimensions s = [] then [n_rows inputs] else inputDimensions s) 0)
        \<noteq> n_rows inputs)"
  by (auto simp: Forward_inputDimensions_def Let_def andThen_def Log_Assert_def
      split: prod.splits if_splits)

lemma Forward_inputDimensions_frame:
  assumes "Forward_inputDimensions inputs s = Inr s'"
  shows "inputDimensions s' =
           (if inputDimensions s = [] \<and>
               (InputDimensions (hd (network s)) \<noteq> inputDimensions s \<or> \<not> inputDimensionsAreSet s)
            then [n_rows inputs] else inputDimensions s)"
  using assms
  by (auto simp: Forward_inputDimensions_def Let_def andThen_def Log_Assert_def
      split: prod.splits if_splits)

lemma InitializeForwardPassMemory_frame:
  "InitializeForwardPassMemory b s = Inr s' \<Longrightarrow> inputDimensions s' = inputDimensions s"
  by (auto simp: InitializeForwardPassMemory_def Let_def allocate_def
      split: prod.splits sum.splits if_splits)

lemma Forward_loop_frame:
  "Forward_loop first final i s = Inr s' \<Longrightarrow> inputDimensions s' = inputDimensions s"
proof (induction first final i s rule: Forward_loop.induct)
  case (1 first final i s)
  from "1.prems" show ?case
    apply (subst (asm) Forward_loop.simps)
    apply (simp split: if_splits)
    using "1.IH" by (simp add: record_call_def)
qed

lemma Forward_layers_frame:
  "Forward_layers inputs results first final s = Inr s' \<Longrightarrow>
     inputDimensions s' = inputDimensions s"
  by (auto simp: Forward_layers_def Let_def andThen_def record_call_def
      split: if_splits sum.splits dest: Forward_loop_frame)

lemma SetLayerMemory_error:
  assumes "SetLayerMemory s = Inl e"
  shows "e = AssertFailed PastEndOfParameters \<or> e = AssertFailed WeightSizeMismatch"
proof (cases "SetLayerMemory_loop (length (parameters s)) (network s) 0 0")
  case (Inl e')
  with assms have "e = e'" by (simp add: SetLayerMemory_def)
  with SetLayerMemory_loop_Inl [OF Inl] show ?thesis by simp
next
  case (Inr r)
  with assms show ?thesis
    by (auto simp: SetLayerMemory_def Log_Assert_def split: prod.splits if_splits)
qed

lemma Forward_layers_Inl:
  "Forward_layers inputs results first final s = Inl e \<Longrightarrow> e = IndexOutOfRange"
  by (auto simp: Forward_layers_def Let_def andThen_def split: if_splits sum.splits
      dest: Forward_loop_Inl)

lemmas forward_simps = Forward_def Forward_layers_def Forward_inputDimensions_def
  Forward_loop.simps InputDimensions_loop.simps SetLayerMemory_def SetLayerMemory_loop.simps
  OutputDimensions_def SetWeights_def record_call_def

lemmas forward_example_simps = columnInput_def
  exampleFFN_def exampleLayer_def FFN_new_def no_arena_def empty_mat_def forward_simps
  InitializeForwardPassMemory_def ForwardPassSizes_loop.simps ForwardAlias_loop.simps
  needsReallocation_div allocate_def accumulate_def to_int_def to_size_t_def OutputSize_def MakeAlias_def andThen_def
  Let_def

text \<open>
  C4 (as stated, refuted). The declared shape is one dimension of 4 and the input has 5
  rows. A call over the empty range 1..0 returns at once and checks nothing. And after a
  pass over a 4-row input has resolved the dimensions, a pass over a 5-row input finds
  them cached, skips the check and runs both layers.
\<close>

theorem Forward_unchecked_calls:
  "n_rows (columnInput 5) \<noteq> prod_list (inputDimensions shapeExample) \<and>
   Forward (columnInput 5) Results 1 0 shapeExample = Inr shapeExample \<and>
   Forward (columnInput 4) Results 0 1 shapeExample = Inr shapeExampleAfter \<and>
   inputDimensions shapeExampleAfter = [4] \<and>
   map_sum id trace (Forward (columnInput 5) Results 0 1 shapeExampleAfter) =
     Inr (trace shapeExampleAfter @
          [SetSize Results 1,
           LayerForward 0 (Inputs (columnInput 5)) (LayerOutputs 0),
           LayerForward 1 (LayerOutputs 0) Results])"
  by (simp add: shapeExample_def shapeExampleAfter_def forward_example_simps)

text \<open>
  C4 (amended). Take a network whose declared input shape is unset or a single dimension
  below \<open>2^31\<close>, and, when the shape is unset, an input of fewer than \<open>2^31\<close> rows. A
  \<open>Forward\<close> call fails the input-size assertion exactly when the range is not empty,
  the weights can be assigned to the layers (there are none yet, the layers' memory is
  already set, or the parameters are as many as the layers need; otherwise the pass stops
  at the weight assertions before it reaches the check), there is a first layer whose
  recorded input dimensions differ from the network's or the dimensions are not marked as
  set, the shape is declared, and the number of input rows differs from the product of the
  declared dimensions. When the call over a non-empty range returns, an unset shape that
  was resolved is the single dimension equal to the input row count, for which the check
  has passed, and any other shape is as it was.
\<close>

theorem Forward_input_shape_check:
  assumes flat: "length (inputDimensions s) \<le> 1"
    and small: "\<forall>d\<in>set (inputDimensions s). d < 2 ^ 31"
    and rows: "inputDimensions s = [] \<longrightarrow> n_rows inputs < 2 ^ 31"
  shows "((Forward inputs results first final s = Inl (AssertFailed InputSizeMismatch)) =
          (first \<le> final \<and>
           (parameters s = [] \<or> layerMemoryIsSet s \<or>
            totalWeightSizeOf (network s) = length (parameters s)) \<and>
           network s \<noteq> [] \<and>
           (InputDimensions (hd (network s)) \<noteq> inputDimensions s \<or> \<not> inputDimensionsAreSet s) \<and>
           inputDimensions s \<noteq> [] \<and> n_rows inputs \<noteq> prod_list (inputDimensions s))) \<and>
         (\<forall>s'. first \<le> final \<and> Forward inputs results first final s = Inr s' \<longrightarrow>
            inputDimensions s' =
              (if inputDimensions s = [] \<and>
                  (InputDimensions (hd (network s)) \<noteq> inputDimensions s \<or>
                   \<not> inputDimensionsAreSet s)
               then [n_rows inputs] else inputDimensions s))"
proof (cases "final < first")
  case True
  then show ?thesis by (simp add: Forward_def)
next
  case False
  let ?s1 = "if parameters s = [] then InitializeWeights s else s"
  let ?prep = "if \<not> layerMemoryIsSet ?s1 then SetLayerMemory ?s1 else Inr ?s1"
  let ?weights = "parameters s = [] \<or> layerMemoryIsSet s \<or>
                  totalWeightSizeOf (network s) = length (parameters s)"
  have unfold: "Forward inputs results first final s =
        andThen ?prep (\<lambda>s2.
        andThen (Forward_inputDimensions inputs s2) (\<lambda>s3.
        andThen (InitializeForwardPassMemory (n_cols inputs) s3) (\<lambda>s4.
          Forward_layers inputs results first final s4)))"
    using False by (simp add: Forward_def Let_def)
  show ?thesis
  proof (cases ?weights)
    case nw: False
    then have s1: "?s1 = s" and ns: "\<not> layerMemoryIsSet s"
      and tot: "totalWeightSizeOf (network s) \<noteq> length (parameters s)" by simp_all
    have "\<exists>e. SetLayerMemory s = Inl e"
    proof (cases "SetLayerMemory s")
      case (Inl e) then show ?thesis by blast
    next
      case (Inr s2)
      from SetLayerMemory_Inr(1) [OF Inr] tot show ?thesis by simp
    qed
    then obtain e where e: "SetLayerMemory s = Inl e" ..
    have run: "Forward inputs results first final s = Inl e"
      unfolding unfold s1 using ns e by (simp add: andThen_def)
    from SetLayerMemory_error [OF e] have "e \<noteq> AssertFailed InputSizeMismatch" by auto
    with run nw show ?thesis by simp
  next
    case w: True
    from Forward_prepare [OF w] obtain s2 where
      prep: "?prep = Inr s2"
      and net: "map InputDimensions (network s2) = map InputDimensions (network s)"
      and dims: "inputDimensions s2 = inputDimensions s"
      and isset: "inputDimensionsAreSet s2 = inputDimensionsAreSet s"
      by blast
    have run: "Forward inputs results first final s =
          andThen (Forward_inputDimensions inputs s2) (\<lambda>s3.
          andThen (InitializeForwardPassMemory (n_cols inputs) s3) (\<lambda>s4.
            Forward_layers inputs results first final s4))"
      unfolding unfold prep by (simp add: andThen_def)
    have ne: "(network s2 \<noteq> []) = (network s \<noteq> [])"
      using net by (metis map_is_Nil_conv)
    have hd: "InputDimensions (hd (network s2)) = InputDimensions (hd (network s))"
    proof (cases "network s = []")
      case True
      with ne show ?thesis by simp
    next
      case False
      with net ne show ?thesis by (metis hd_map)
    qed
    have acc: "to_size_t (accumulate
          (if inputDimensions s = [] then [n_rows inputs] else inputDimensions s) 0)
        = (if inputDimensions s = [] then n_rows inputs else prod_list (inputDimensions s))"
    proof (cases "inputDimensions s = []")
      case True
      with rows have "\<forall>d\<in>set [n_rows inputs]. d < 2 ^ 31" by simp
      from accumulate_flat [OF _ _ this] True show ?thesis by simp
    next
      case False
      from accumulate_flat [OF flat False small] False show ?thesis by simp
    qed
    have check: "(Forward_inputDimensions inputs s2 = Inl (AssertFailed InputSizeMismatch)) =
           (network s \<noteq> [] \<and>
            (InputDimensions (hd (network s)) \<noteq> inputDimensions s \<or> \<not> inputDimensionsAreSet s) \<and>
            inputDimensions s \<noteq> [] \<and> n_rows inputs \<noteq> prod_list (inputDimensions s))"
      unfolding Forward_inputDimensions_check dims isset ne hd acc by auto
    have later: "andThen (InitializeForwardPassMemory (n_cols inputs) s3) (\<lambda>s4.
            Forward_layers inputs results first final s4) \<noteq> Inl (AssertFailed InputSizeMismatch)"
      for s3
      by (auto simp: andThen_def split: sum.splits
          dest: InitializeForwardPassMemory_Inl Forward_layers_Inl)
    have fails: "(Forward inputs results first final s = Inl (AssertFailed InputSizeMismatch)) =
          (Forward_inputDimensions inputs s2 = Inl (AssertFailed InputSizeMismatch))"
      unfolding run using later
      by (cases "Forward_inputDimensions inputs s2") (simp_all add: andThen_def)
    have shape: "inputDimensions s' =
              (if inputDimensions s = [] \<and>
                  (InputDimensions (hd (network s)) \<noteq> inputDimensions s \<or>
                   \<not> inputDimensionsAreSet s)
               then [n_rows inputs] else inputDimensions s)"
      if ok: "Forward inputs results first final s = Inr s'" for s'
    proof -
      from ok obtain s3 s4 where
        a: "Forward_inputDimensions inputs s2 = Inr s3"
        and b: "InitializeForwardPassMemory (n_cols inputs) s3 = Inr s4"
        and c: "Forward_layers inputs results first final s4 = Inr s'"
        unfolding run by (auto simp: andThen_def split: sum.splits)
      from Forward_layers_frame [OF c] InitializeForwardPassMemory_frame [OF b]
        Forward_inputDimensions_frame [OF a]
      show ?thesis by (simp add: dims isset hd)
    qed
    from fails check w False shape show ?thesis by simp
  qed
qed

theorem Forward_input_shape_check_witness:
  "Forward (columnInput 5) Results 0 1 shapeExample = Inl (AssertFailed InputSizeMismatch) \<and>
   Forward (columnInput 4) Results 0 1 shapeExample \<noteq> Inl (AssertFailed InputSizeMismatch) \<and>
   map_sum id inputDimensions
     (Forward (columnInput 5) Results 0 1 (shapeExample\<lparr>inputDimensions := []\<rparr>)) = Inr [5]"
proof -
  have h4: "length (inputDimensions shapeExample) \<le> 1"
    "\<forall>d\<in>set (inputDimensions shapeExample). d < 2 ^ 31"
    by (simp_all add: shapeExample_def)
  have r4: "inputDimensions shapeExample = [] \<longrightarrow> n_rows (columnInput r) < 2 ^ 31" for r
    by (simp add: shapeExample_def)
  let ?u = "shapeExample\<lparr>inputDimensions := []\<rparr>"
  have h0: "length (inputDimensions ?u) \<le> 1" "\<forall>d\<in>set (inputDimensions ?u). d < 2 ^ 31"
    "inputDimensions ?u = [] \<longrightarrow> n_rows (columnInput 5) < 2 ^ 31"
    by (simp_all add: columnInput_def)
  have a: "Forward (columnInput 5) Results 0 1 shapeExample = Inl (AssertFailed InputSizeMismatch)"
    using Forward_input_shape_check [OF h4 r4, of 5 Results 0 1, THEN conjunct1]
    by (simp add: shapeExample_def exampleFFN_def exampleLayer_def columnInput_def
        totalWeightSizeOf_def)
  have b: "Forward (columnInput 4) Results 0 1 shapeExample \<noteq> Inl (AssertFailed InputSizeMismatch)"
    using Forward_input_shape_check [OF h4 r4, of 4 Results 0 1, THEN conjunct1]
    by (simp add: shapeExample_def exampleFFN_def exampleLayer_def columnInput_def)
  have "\<exists>s'. Forward (columnInput 5) Results 0 1 ?u = Inr s'"
    by (simp add: shapeExample_def forward_example_simps)
  then obtain s' where run: "Forward (columnInput 5) Results 0 1 ?u = Inr s'" ..
  from Forward_input_shape_check [OF h0, of Results 0 1, THEN conjunct2, rule_format, of s'] run
  have "inputDimensions s' = [5]"
    by (simp add: shapeExample_def exampleFFN_def exampleLayer_def columnInput_def FFN_new_def)
  with run have c: "map_sum id inputDimensions (Forward (columnInput 5) Results 0 1 ?u) = Inr [5]"
    by simp
  show ?thesis by (intro conjI) (rule a, rule b, rule c)
qed

subsection \<open>Loss returned to the optimizer\<close>

lemmas objective_simps = Evaluate_def EvaluateWithGradient_def Forward_all_def batch_def cols_def
  size_minus_one_def size_minus_two_def Backward_def Backward_loop.simps Gradient_def
  Gradient_loop.simps InitializeGradientPassMemory_def GradientAlias_loop.simps
  InitializeBackwardPassMemory_def BackwardAlias_loop.simps Mat_n_cols_def

lemma foldl_add_sum: "foldl (+) (r::real) xs = r + sum_list xs"
  by (induction xs arbitrary: r) (simp_all add: add.assoc)

lemma EvaluateWithGradient_loss:
  assumes "EvaluateWithGradient params first gradient batchSize s = Inr (res, s')"
  shows "\<exists>res0 s1. Evaluate params first batchSize False s = Inr (res0, s1) \<and>
           res = res0 + sum_list (map Loss (network s1))"
  using assms
  by (auto simp: EvaluateWithGradient_def andThen_def Let_def foldl_add_sum
      split: sum.splits prod.splits if_splits)

text \<open>
  C5 (the code differs). On the network whose first layer reports a loss of 1, with an
  output-layer loss of 0, \<open>Evaluate\<close> in train mode returns 1: the output-layer loss and
  each layer's loss once. \<open>EvaluateWithGradient\<close> on the same state and batch returns
  2: it adds every layer's loss to what \<open>Evaluate\<close> returned.
\<close>

theorem EvaluateWithGradient_counts_losses_twice:
  "map_sum id fst (Evaluate [] 0 1 False lossExample) = Inr 1 \<and>
   map_sum id fst (EvaluateWithGradient [] 0 \<lparr>alloc = 9, n_elem = 2\<rparr> 1 lossExample) = Inr 2"
  by (simp add: lossExample_def forward_example_simps objective_simps)


section \<open>Verification of the DatasetMapper\<close>

subsection \<open>Column types\<close>





subsection \<open>Unmapping\<close>

text \<open>
  C10 (as stated, refuted). For a dimension that has no entry in \<open>maps\<close> the key has no
  mapping there, and \<open>UnmapString\<close> throws \<open>std::out_of_range\<close> from \<open>maps.at\<close>, not
  \<open>std::invalid_argument\<close>: a mapper of one numeric dimension with no maps.
\<close>

theorem UnmapString_missing_dimension:
  "UnmapString (Num 1) 0 0 \<lparr>types = [numeric], maps = Map.empty\<rparr> = Inl out_of_range \<and>
   UnmapString (Num 1) 0 0 \<lparr>types = [numeric], maps = Map.empty\<rparr> \<noteq> Inl invalid_argument"
  by (simp add: UnmapString_def map_at_def isnan_def)

text \<open>
  C10 (amended). \<open>UnmapString\<close> looks up the substitute key for a NaN value and the
  value itself otherwise. It throws \<open>std::out_of_range\<close> exactly when the dimension has no
  entry in \<open>maps\<close>; it throws \<open>std::invalid_argument\<close> exactly when the dimension has an
  entry and either the key has no unmappings there or the index is not below their
  number; otherwise it returns the string at the index. A NaN value and the substitute
  key give the same result in both operations; \<open>NumUnmappings\<close> counts the unmappings of
  the same key and throws \<open>std::out_of_range\<close> when there are none.
\<close>

theorem UnmapString_cases:
  "(UnmapString v d k m = Inl out_of_range) = (maps m d = None) \<and>
   (UnmapString v d k m = Inl invalid_argument) =
     (\<exists>p. maps m d = Some p \<and>
          (snd p (if isnan v then nexttoward_max else v) = None \<or>
           (\<exists>strings. snd p (if isnan v then nexttoward_max else v) = Some strings \<and>
                      k \<ge> length strings))) \<and>
   (\<forall>p strings. maps m d = Some p \<and>
        snd p (if isnan v then nexttoward_max else v) = Some strings \<and> k < length strings \<longrightarrow>
        UnmapString v d k m = Inr (strings ! k)) \<and>
   UnmapString NaN d k m = UnmapString nexttoward_max d k m \<and>
   NumUnmappings NaN d m = NumUnmappings nexttoward_max d m \<and>
   NumUnmappings v d m =
     (case maps m d of
        None \<Rightarrow> Inl out_of_range
      | Some p \<Rightarrow>
          (case snd p (if isnan v then nexttoward_max else v) of
             None \<Rightarrow> Inl out_of_range
           | Some strings \<Rightarrow> Inr (length strings)))"
proof -
  have nn: "\<not> isnan nexttoward_max" by (simp add: isnan_def nexttoward_max_def)
  show ?thesis
    using nn
    by (auto simp: UnmapString_def NumUnmappings_def map_at_def Let_def isnan_def
        split: option.splits)
qed

theorem UnmapString_cases_witness:
  "UnmapString NaN 0 1 \<lparr>types = [categorical],
      maps = [0 \<mapsto> (Map.empty, [nexttoward_max \<mapsto> [''?'', '''']])]\<rparr> = Inr '''' \<and>
   UnmapString NaN 0 2 \<lparr>types = [categorical],
      maps = [0 \<mapsto> (Map.empty, [nexttoward_max \<mapsto> [''?'', '''']])]\<rparr> = Inl invalid_argument \<and>
   UnmapString (Num 3) 0 0 \<lparr>types = [categorical],
      maps = [0 \<mapsto> (Map.empty, [nexttoward_max \<mapsto> [''?'', '''']])]\<rparr> = Inl invalid_argument \<and>
   NumUnmappings NaN 0 \<lparr>types = [categorical],
      maps = [0 \<mapsto> (Map.empty, [nexttoward_max \<mapsto> [''?'', '''']])]\<rparr> = Inr 2"
proof -
  let ?m = "\<lparr>types = [categorical],
      maps = [0 \<mapsto> (Map.empty, [nexttoward_max \<mapsto> [''?'', '''']])]\<rparr>"
  have nn: "nexttoward_max \<noteq> NaN" "nexttoward_max \<noteq> Num 3"
    by (simp_all add: nexttoward_max_def)
  note A = UnmapString_cases [of NaN 0 1 ?m]
  note B = UnmapString_cases [of NaN 0 2 ?m]
  note C = UnmapString_cases [of "Num 3" 0 0 ?m]
  have a: "UnmapString NaN 0 1 ?m = Inr ''''"
    using A [THEN conjunct2, THEN conjunct2, THEN conjunct1, rule_format,
             of "(Map.empty, [nexttoward_max \<mapsto> [''?'', '''']])" "[''?'', '''']"]
    by (simp add: isnan_def)
  have b: "UnmapString NaN 0 2 ?m = Inl invalid_argument"
    using B [THEN conjunct2, THEN conjunct1] by (simp add: isnan_def)
  have c: "UnmapString (Num 3) 0 0 ?m = Inl invalid_argument"
    using C [THEN conjunct2, THEN conjunct1] nn by (simp add: isnan_def)
  have d: "NumUnmappings NaN 0 ?m = Inr 2"
    using A [THEN conjunct2, THEN conjunct2, THEN conjunct2, THEN conjunct2, THEN conjunct2]
    by (simp add: isnan_def)
  show ?thesis by (intro conjI) (rule a, rule b, rule c, rule d)
qed

end
